theory Spec2Isabelle
  imports Complex_Main "HOL-Library.AList" "HOL-Library.Sublist"
begin

section \<open>Python values, exceptions and the built-in operations the code uses\<close>

text \<open>
  The two modules \<^verbatim>\<open>github_trending.py\<close> and \<^verbatim>\<open>analyzer.py\<close> work on values decoded
  from JSON: dictionaries, lists, strings, numbers, booleans and \<^verbatim>\<open>None\<close>. A dictionary is
  an association list in insertion order (its keys are distinct in every value that
  \<^verbatim>\<open>json.load\<close> or a dict display builds). Strings are lists of characters with code
  points below 256 (Latin-1). A raised exception is the left summand of the result.
\<close>

datatype pyerr =
    OSError | JSONDecodeError | UnicodeDecodeError | AttributeError
  | TypeError | ValueError | KeyError | OverflowError | SystemExit int

datatype json =
    JNull | JBool bool | JInt int | JFloat real | JStr string
  | JArr "json list" | JObj "(string \<times> json) list"

type_synonym pydict = "(string \<times> json) list"

text \<open>Sequencing: the first exception raised ends the computation.\<close>

definition andthen :: "pyerr + 'a \<Rightarrow> ('a \<Rightarrow> pyerr + 'b) \<Rightarrow> pyerr + 'b" where
  "andthen m f = (case m of Inl e \<Rightarrow> Inl e | Inr x \<Rightarrow> f x)"

text \<open>\<^verbatim>\<open>d.get(k, default)\<close> on a dictionary.\<close>

definition dict_get :: "pydict \<Rightarrow> string \<Rightarrow> json \<Rightarrow> json" where
  "dict_get d k dflt = (case map_of d k of None \<Rightarrow> dflt | Some v \<Rightarrow> v)"

text \<open>Truth value of an object, as \<^verbatim>\<open>if x:\<close> and \<^verbatim>\<open>not x\<close> compute it.\<close>

fun truthy :: "json \<Rightarrow> bool" where
  "truthy JNull = False"
| "truthy (JBool b) = b"
| "truthy (JInt n) = (n \<noteq> 0)"
| "truthy (JFloat x) = (x \<noteq> 0)"
| "truthy (JStr s) = (s \<noteq> [])"
| "truthy (JArr xs) = (xs \<noteq> [])"
| "truthy (JObj d) = (d \<noteq> [])"

definition is_digit :: "char \<Rightarrow> bool" where
  "is_digit c = (48 \<le> (of_char c :: nat) \<and> (of_char c :: nat) \<le> 57)"

definition digit_val :: "char \<Rightarrow> nat" where
  "digit_val c = of_char c - 48"

text \<open>
  The white space \<^verbatim>\<open>int\<close> skips around a number: tab to carriage return and the
  space, and of the other characters those that are Unicode white space, which are
  U+0085 and U+00A0 in this range. (\<^verbatim>\<open>int\<close> does not skip U+001C to U+001F.)
\<close>

definition is_space :: "char \<Rightarrow> bool" where
  "is_space c =
     (let n = (of_char c :: nat) in (9 \<le> n \<and> n \<le> 13) \<or> n = 32 \<or> n = 133 \<or> n = 160)"

text \<open>
  \<^verbatim>\<open>s.lower()\<close>: the capitals A to Z by table, and the capitals of the upper half,
  U+00C0 to U+00DE without the multiplication sign U+00D7, by their code point; each
  moves up by 32 and every other character stays.
\<close>

definition lower_char :: "char \<Rightarrow> char" where
  "lower_char c =
     (case map_of (zip ''ABCDEFGHIJKLMNOPQRSTUVWXYZ'' ''abcdefghijklmnopqrstuvwxyz'') c of
        Some l \<Rightarrow> l
      | None \<Rightarrow>
          (let n = (of_char c :: nat) in
           if (192 \<le> n \<and> n \<le> 214) \<or> (216 \<le> n \<and> n \<le> 222) then char_of (n + 32) else c))"

definition lower :: "string \<Rightarrow> string" where
  "lower s = map lower_char s"

text \<open>\<^verbatim>\<open>sub in s\<close> on strings: \<open>sub\<close> occurs in \<open>s\<close> as a contiguous block.\<close>

fun starts_with :: "string \<Rightarrow> string \<Rightarrow> bool" where
  "starts_with [] s = True"
| "starts_with (p # ps) [] = False"
| "starts_with (p # ps) (c # cs) = (p = c \<and> starts_with ps cs)"

fun str_contains :: "string \<Rightarrow> string \<Rightarrow> bool" where
  "str_contains sub [] = (sub = [])"
| "str_contains sub (c # cs) = (starts_with sub (c # cs) \<or> str_contains sub cs)"

text \<open>
  \<^verbatim>\<open>int(s)\<close> on a string, base ten: surrounding white space is dropped, one sign is
  allowed, then decimal digits follow, where a single underscore may stand between two
  digits. Anything else raises \<^verbatim>\<open>ValueError\<close>. The interpreter's limit on the number
  of digits of one conversion is not modelled.
\<close>

definition strip :: "string \<Rightarrow> string" where
  "strip s = rev (dropWhile is_space (rev (dropWhile is_space s)))"

fun parse_digits :: "nat \<Rightarrow> string \<Rightarrow> nat option" where
  "parse_digits acc [] = Some acc"
| "parse_digits acc (c # cs) =
     (if is_digit c then parse_digits (10 * acc + digit_val c) cs
      else if c = CHR ''_'' then
        (case cs of
           [] \<Rightarrow> None
         | d # ds \<Rightarrow> if is_digit d then parse_digits (10 * acc + digit_val d) ds else None)
      else None)"

definition parse_unsigned :: "string \<Rightarrow> nat option" where
  "parse_unsigned s =
     (case s of [] \<Rightarrow> None | c # cs \<Rightarrow> if is_digit c then parse_digits (digit_val c) cs else None)"

definition py_int :: "string \<Rightarrow> pyerr + int" where
  "py_int s =
     (let t = strip s in
      case t of
        [] \<Rightarrow> Inl ValueError
      | c # r \<Rightarrow>
          if c = CHR ''-'' then
            (case parse_unsigned r of None \<Rightarrow> Inl ValueError | Some n \<Rightarrow> Inr (- int n))
          else if c = CHR ''+'' then
            (case parse_unsigned r of None \<Rightarrow> Inl ValueError | Some n \<Rightarrow> Inr (int n))
          else
            (case parse_unsigned t of None \<Rightarrow> Inl ValueError | Some n \<Rightarrow> Inr (int n)))"

text \<open>
  Operations on an object of unknown type. \<^verbatim>\<open>v.get(k, default)\<close> exists on dictionaries
  only; \<^verbatim>\<open>k in v\<close> for a string \<open>k\<close> is key membership on a dictionary, element
  membership on a list and the substring test on a string; numbers and \<^verbatim>\<open>None\<close> are not
  containers. Comparison and arithmetic take integers, floats and booleans.
\<close>

definition py_get :: "json \<Rightarrow> string \<Rightarrow> json \<Rightarrow> pyerr + json" where
  "py_get v k dflt = (case v of JObj d \<Rightarrow> Inr (dict_get d k dflt) | _ \<Rightarrow> Inl AttributeError)"

definition py_in :: "string \<Rightarrow> json \<Rightarrow> pyerr + bool" where
  "py_in k v =
     (case v of
        JObj d \<Rightarrow> Inr (k \<in> set (map fst d))
      | JArr xs \<Rightarrow> Inr (JStr k \<in> set xs)
      | JStr s \<Rightarrow> Inr (str_contains k s)
      | _ \<Rightarrow> Inl TypeError)"

text \<open>\<^verbatim>\<open>v[k]\<close> and \<^verbatim>\<open>v[k] = x\<close> for a string \<open>k\<close>.\<close>

definition py_getitem :: "json \<Rightarrow> string \<Rightarrow> pyerr + json" where
  "py_getitem v k =
     (case v of
        JObj d \<Rightarrow> (case map_of d k of None \<Rightarrow> Inl KeyError | Some x \<Rightarrow> Inr x)
      | _ \<Rightarrow> Inl TypeError)"

definition py_setitem :: "json \<Rightarrow> string \<Rightarrow> json \<Rightarrow> pyerr + json" where
  "py_setitem v k x = (case v of JObj d \<Rightarrow> Inr (JObj (AList.update k x d)) | _ \<Rightarrow> Inl TypeError)"

text \<open>The elements a \<^verbatim>\<open>for\<close> loop over the object visits.\<close>

definition py_iter :: "json \<Rightarrow> pyerr + json list" where
  "py_iter v =
     (case v of
        JArr xs \<Rightarrow> Inr xs
      | JObj d \<Rightarrow> Inr (map (\<lambda>kv. JStr (fst kv)) d)
      | JStr s \<Rightarrow> Inr (map (\<lambda>c. JStr [c]) s)
      | _ \<Rightarrow> Inl TypeError)"

definition py_num :: "json \<Rightarrow> pyerr + real" where
  "py_num v =
     (case v of
        JInt n \<Rightarrow> Inr (of_int n)
      | JFloat x \<Rightarrow> Inr x
      | JBool b \<Rightarrow> Inr (if b then 1 else 0)
      | _ \<Rightarrow> Inl TypeError)"

section \<open>Filtering trending entries (\<^verbatim>\<open>filter_repos\<close>)\<close>

text \<open>
  \<^verbatim>\<open>stars = int(repo.get('stars', '0').replace(',', ''))\<close>: a missing field reads as
  \<^verbatim>\<open>'0'\<close>, a field that is not a string has no \<^verbatim>\<open>replace\<close>.
\<close>

definition parse_stars :: "pydict \<Rightarrow> pyerr + int" where
  "parse_stars repo =
     (case dict_get repo ''stars'' (JStr ''0'') of
        JStr s \<Rightarrow> py_int (filter (\<lambda>c. c \<noteq> CHR '','') s)
      | _ \<Rightarrow> Inl AttributeError)"

text \<open>\<^verbatim>\<open>repo.get(k, '').lower()\<close>.\<close>

definition lower_field :: "pydict \<Rightarrow> string \<Rightarrow> pyerr + string" where
  "lower_field repo k =
     (case dict_get repo k (JStr []) of JStr s \<Rightarrow> Inr (lower s) | _ \<Rightarrow> Inl AttributeError)"

text \<open>
  The search test of one entry: \<open>True\<close> when the entry is kept. Title and description
  are both read and lowered before either is searched.
\<close>

definition search_keeps :: "string \<Rightarrow> pydict \<Rightarrow> pyerr + bool" where
  "search_keeps search repo =
     (let search_lower = lower search in
      case lower_field repo ''title'' of
        Inl e \<Rightarrow> Inl e
      | Inr title \<Rightarrow>
          (case lower_field repo ''description'' of
             Inl e \<Rightarrow> Inl e
           | Inr desc \<Rightarrow>
               Inr (\<not> (\<not> str_contains search_lower title \<and> \<not> str_contains search_lower desc))))"

text \<open>
  The loop of \<^verbatim>\<open>filter_repos\<close>, with the list \<^verbatim>\<open>filtered\<close> built so far as an
  argument. \<^verbatim>\<open>max_stars\<close> and \<^verbatim>\<open>search\<close> are optional and tested for truth, so
  \<^verbatim>\<open>0\<close> and the empty string switch their test off as \<^verbatim>\<open>None\<close> does. A kept
  entry receives the field \<^verbatim>\<open>_stars_int\<close>.
\<close>

fun filter_loop ::
  "int \<Rightarrow> int option \<Rightarrow> string option \<Rightarrow> pydict list \<Rightarrow> pydict list \<Rightarrow> pyerr + pydict list" where
  "filter_loop min_stars max_stars search filtered [] = Inr filtered"
| "filter_loop min_stars max_stars search filtered (repo # repos) =
     (case parse_stars repo of
        Inl e \<Rightarrow> Inl e
      | Inr stars \<Rightarrow>
          if stars < min_stars then filter_loop min_stars max_stars search filtered repos
          else if (case max_stars of None \<Rightarrow> False | Some m \<Rightarrow> m \<noteq> 0 \<and> stars > m)
            then filter_loop min_stars max_stars search filtered repos
          else
            (case (case search of
                     None \<Rightarrow> Inr True
                   | Some t \<Rightarrow> if t \<noteq> [] then search_keeps t repo else Inr True) of
               Inl e \<Rightarrow> Inl e
             | Inr False \<Rightarrow> filter_loop min_stars max_stars search filtered repos
             | Inr True \<Rightarrow>
                 filter_loop min_stars max_stars search
                   (filtered @ [AList.update ''_stars_int'' (JInt stars) repo]) repos))"

definition filter_repos ::
  "pydict list \<Rightarrow> int \<Rightarrow> int option \<Rightarrow> string option \<Rightarrow> pyerr + pydict list" where
  "filter_repos repos min_stars max_stars search =
     filter_loop min_stars max_stars search [] repos"

text \<open>
  Reading the result of \<^verbatim>\<open>filter_repos\<close>: the star count of an entry (0 where the
  parse raises), the text of a field, the search test on the texts, the entry with its
  derived field, and the entries on which no step of the loop body can raise.
\<close>

definition stars_of :: "pydict \<Rightarrow> int" where
  "stars_of repo = (case parse_stars repo of Inl e \<Rightarrow> 0 | Inr n \<Rightarrow> n)"

definition text_of :: "pydict \<Rightarrow> string \<Rightarrow> string" where
  "text_of repo k = (case dict_get repo k (JStr []) of JStr s \<Rightarrow> s | _ \<Rightarrow> [])"

definition is_text :: "pydict \<Rightarrow> string \<Rightarrow> bool" where
  "is_text repo k = (case dict_get repo k (JStr []) of JStr s \<Rightarrow> True | _ \<Rightarrow> False)"

definition mentions :: "string \<Rightarrow> pydict \<Rightarrow> bool" where
  "mentions t repo =
     (str_contains (lower t) (lower (text_of repo ''title''))
      \<or> str_contains (lower t) (lower (text_of repo ''description'')))"

definition survives :: "int \<Rightarrow> string option \<Rightarrow> pydict \<Rightarrow> bool" where
  "survives S T repo =
     (S \<le> stars_of repo \<and> (case T of None \<Rightarrow> True | Some t \<Rightarrow> mentions t repo))"

definition with_stars_int :: "pydict \<Rightarrow> pydict" where
  "with_stars_int repo = AList.update ''_stars_int'' (JInt (stars_of repo)) repo"

definition well_formed :: "string option \<Rightarrow> pydict \<Rightarrow> bool" where
  "well_formed T repo =
     (\<not> isl (parse_stars repo)
      \<and> (case T of
            None \<Rightarrow> True
          | Some t \<Rightarrow> t = [] \<or> (is_text repo ''title'' \<and> is_text repo ''description'')))"

text \<open>The number a string of decimal digits denotes.\<close>

definition decimal :: "string \<Rightarrow> nat" where
  "decimal ds = foldl (\<lambda>acc c. 10 * acc + digit_val c) 0 ds"

text \<open>What the loop body of \<^verbatim>\<open>filter_repos\<close> decides for one entry.\<close>

definition verdict :: "int \<Rightarrow> int option \<Rightarrow> string option \<Rightarrow> pydict \<Rightarrow> pyerr + pydict option" where
  "verdict mn mx T repo =
     (case parse_stars repo of
        Inl e \<Rightarrow> Inl e
      | Inr stars \<Rightarrow>
          if stars < mn then Inr None
          else if (case mx of None \<Rightarrow> False | Some m \<Rightarrow> m \<noteq> 0 \<and> stars > m) then Inr None
          else
            (case (case T of
                     None \<Rightarrow> Inr True
                   | Some t \<Rightarrow> if t \<noteq> [] then search_keeps t repo else Inr True) of
               Inl e \<Rightarrow> Inl e
             | Inr False \<Rightarrow> Inr None
             | Inr True \<Rightarrow> Inr (Some (AList.update ''_stars_int'' (JInt stars) repo))))"

section \<open>The cache store\<close>

text \<open>
  A cache file lives under the cache directory at \<^verbatim>\<open>cache_type/md5(key).json\<close>; the
  digest is a parameter. What the store holds at a path is what \<^verbatim>\<open>open\<close> and
  \<^verbatim>\<open>json.load\<close> make of it: no file, a path the system refuses to open, bytes that are
  not UTF-8, text that is not JSON, or a JSON document. The clock \<^verbatim>\<open>time.time()\<close> is
  a real number.
\<close>

type_synonym path = "string \<times> string"

datatype file_state = Absent | Unreadable | NotUtf8 | NotJson | Doc json

type_synonym store = "path \<Rightarrow> file_state"

definition get_cache_path :: "(string \<Rightarrow> string) \<Rightarrow> string \<Rightarrow> string \<Rightarrow> path" where
  "get_cache_path md5 cache_type key = (cache_type, md5 key @ ''.json'')"

definition CACHE_TTL :: "(string \<times> int) list" where
  "CACHE_TTL =
     [(''trending'', 3600), (''repo_info'', 86400), (''readme'', 86400), (''tree'', 86400),
      (''deps'', 86400), (''issues'', 1800)]"

text \<open>\<^verbatim>\<open>CACHE_TTL.get(cache_type, 3600)\<close>.\<close>

definition ttl_of :: "string \<Rightarrow> int" where
  "ttl_of cache_type = (case map_of CACHE_TTL cache_type of None \<Rightarrow> 3600 | Some t \<Rightarrow> t)"

text \<open>
  \<^verbatim>\<open>time.time() - cached_at\<close>: the float clock minus a number. An integer is converted
  to a float first, which raises \<^verbatim>\<open>OverflowError\<close> from \<open>2^1024 - 2^970\<close> on, the
  first integer that rounds beyond the largest float.
\<close>

definition clock_minus :: "real \<Rightarrow> json \<Rightarrow> pyerr + real" where
  "clock_minus now v =
     (case v of
        JInt n \<Rightarrow> if \<bar>n\<bar> < 2 ^ 1024 - 2 ^ 970 then Inr (now - of_int n) else Inl OverflowError
      | JFloat x \<Rightarrow> Inr (now - x)
      | JBool b \<Rightarrow> Inr (now - (if b then 1 else 0))
      | _ \<Rightarrow> Inl TypeError)"

text \<open>The body of the \<^verbatim>\<open>try\<close> block of \<^verbatim>\<open>read_cache\<close>.\<close>

definition read_cache_try :: "file_state \<Rightarrow> real \<Rightarrow> string \<Rightarrow> pyerr + json" where
  "read_cache_try file now cache_type =
     (case file of
        Absent \<Rightarrow> Inl OSError
      | Unreadable \<Rightarrow> Inl OSError
      | NotUtf8 \<Rightarrow> Inl UnicodeDecodeError
      | NotJson \<Rightarrow> Inl JSONDecodeError
      | Doc data \<Rightarrow>
          andthen (py_get data ''_cached_at'' (JInt 0)) (\<lambda>cached_at.
          let ttl = ttl_of cache_type in
          andthen (clock_minus now cached_at) (\<lambda>age.
          if age > of_int ttl then Inr JNull
          else py_get data ''_data'' JNull)))"

text \<open>
  \<^verbatim>\<open>read_cache\<close>: a missing file is a miss (\<^verbatim>\<open>None\<close>); of the exceptions of the body,
  \<^verbatim>\<open>OSError\<close>, \<^verbatim>\<open>JSONDecodeError\<close> and \<^verbatim>\<open>KeyError\<close> are caught and give a miss.
  The existence test stands before the \<^verbatim>\<open>try\<close>; it is taken to answer, although the
  system can refuse it too (a name that is too long), which would reach the caller.
\<close>

definition read_cache :: "(string \<Rightarrow> string) \<Rightarrow> store \<Rightarrow> real \<Rightarrow> string \<Rightarrow> string \<Rightarrow> pyerr + json" where
  "read_cache md5 fs now cache_type key =
     (let cache_path = get_cache_path md5 cache_type key in
      if fs cache_path = Absent then Inr JNull
      else
        (case read_cache_try (fs cache_path) now cache_type of
           Inl e \<Rightarrow> if e = OSError \<or> e = JSONDecodeError \<or> e = KeyError then Inr JNull else Inl e
         | Inr v \<Rightarrow> Inr v))"

text \<open>
  \<^verbatim>\<open>write_cache\<close> returns the new store. Opening a path the system refuses raises
  \<^verbatim>\<open>OSError\<close>, which is swallowed and leaves the store as it was. The payload is a JSON
  value, so \<^verbatim>\<open>json.dump\<close> has nothing to reject, and reading the file back yields the
  document that was written.
\<close>

definition write_cache :: "(string \<Rightarrow> string) \<Rightarrow> store \<Rightarrow> real \<Rightarrow> string \<Rightarrow> string \<Rightarrow> json \<Rightarrow> store" where
  "write_cache md5 fs now cache_type key data =
     (let cache_path = get_cache_path md5 cache_type key;
          cache_data = JObj [(''_cached_at'', JFloat now), (''_key'', JStr key), (''_data'', data)] in
      case (if fs cache_path = Unreadable then Inl OSError
            else Inr (fs(cache_path := Doc cache_data))) of
        Inl e \<Rightarrow> fs
      | Inr fs' \<Rightarrow> fs')"

section \<open>Fetching the trending feed (\<^verbatim>\<open>fetch_trending\<close>)\<close>

text \<open>
  The outside world of \<^verbatim>\<open>fetch_trending\<close>: the digest, the clock, the answer of the
  primary feed to a URL (a decoded document, an \<^verbatim>\<open>HTTPError\<close> with its code, a
  \<^verbatim>\<open>URLError\<close>, or another exception raised while reading or decoding), the list
  \<^verbatim>\<open>scrape_trending(language, since)\<close> returns (it catches its own failures and then
  returns the empty list), and the formatted UTC time.
\<close>

datatype feed_outcome = Delivered json | HTTPError nat | URLError | Broken pyerr

record world =
  md5 :: "string \<Rightarrow> string"
  clock :: real
  feed :: "string \<Rightarrow> feed_outcome"
  scrape_trending :: "string \<Rightarrow> string \<Rightarrow> json list"
  utc_text :: string

definition BASE_URL :: string where
  "BASE_URL = ''https://raw.githubusercontent.com/isboyjc/github-trending-api/main/data''"

definition feed_url :: "string \<Rightarrow> string \<Rightarrow> string" where
  "feed_url since language = BASE_URL @ ''/'' @ since @ ''/'' @ lower language @ ''.json''"

definition trending_key :: "string \<Rightarrow> string \<Rightarrow> string" where
  "trending_key since language = since @ ''_'' @ language"

text \<open>One pass of the normalisation loop over an item of the feed.\<close>

definition alias_field :: "string \<Rightarrow> string \<Rightarrow> json \<Rightarrow> pyerr + json" where
  "alias_field src dst item =
     andthen (py_in src item) (\<lambda>has_src.
     if \<not> has_src then Inr item
     else andthen (py_in dst item) (\<lambda>has_dst.
       if has_dst then Inr item
       else andthen (py_getitem item src) (\<lambda>x. py_setitem item dst x)))"

definition normalize_item :: "json \<Rightarrow> pyerr + json" where
  "normalize_item item =
     andthen (alias_field ''url'' ''link'' item) (alias_field ''addStars'' ''todayStars'')"

fun normalize_items :: "json list \<Rightarrow> pyerr + json list" where
  "normalize_items [] = Inr []"
| "normalize_items (item # items) =
     andthen (normalize_item item) (\<lambda>item'.
     andthen (normalize_items items) (\<lambda>items'. Inr (item' # items')))"

text \<open>
  \<^verbatim>\<open>if 'items' in data: for item in data['items']: ...\<close>. Items are changed in place,
  which shows in \<open>data\<close> when they are the elements of a list.
\<close>

definition normalize_feed :: "json \<Rightarrow> pyerr + json" where
  "normalize_feed data =
     andthen (py_in ''items'' data) (\<lambda>has_items.
     if \<not> has_items then Inr data
     else andthen (py_getitem data ''items'') (\<lambda>items.
       andthen (py_iter items) (\<lambda>elems.
       andthen (normalize_items elems) (\<lambda>elems'.
         case items of JArr xs \<Rightarrow> py_setitem data ''items'' (JArr elems') | _ \<Rightarrow> Inr data))))"

text \<open>
  \<^verbatim>\<open>fetch_trending\<close> returns the document and the new store, or raises; \<^verbatim>\<open>sys.exit(1)\<close>
  is the exception \<^verbatim>\<open>SystemExit\<close>. The pauses of \<^verbatim>\<open>rate_limit\<close> are not modelled.
\<close>

definition fallback :: "world \<Rightarrow> store \<Rightarrow> string \<Rightarrow> string \<Rightarrow> pyerr + json \<times> store" where
  "fallback w fs since language =
     (let cache_key = trending_key since language;
          repos = scrape_trending w (if language \<noteq> ''all'' then language else []) since in
      if repos \<noteq> [] then
        (let data = JObj [(''items'', JArr repos), (''pubDate'', JStr (utc_text w))] in
         Inr (data, write_cache (md5 w) fs (clock w) ''trending'' cache_key data))
      else Inl (SystemExit 1))"

definition fetch_remote :: "world \<Rightarrow> store \<Rightarrow> string \<Rightarrow> string \<Rightarrow> pyerr + json \<times> store" where
  "fetch_remote w fs since language =
     (let cache_key = trending_key since language;
          url = feed_url since language in
      case feed w url of
        Delivered body \<Rightarrow>
          andthen (normalize_feed body) (\<lambda>data.
          Inr (data, write_cache (md5 w) fs (clock w) ''trending'' cache_key data))
      | HTTPError code \<Rightarrow> fallback w fs since language
      | URLError \<Rightarrow> fallback w fs since language
      | Broken e \<Rightarrow> Inl e)"

definition fetch_trending :: "world \<Rightarrow> store \<Rightarrow> string \<Rightarrow> string \<Rightarrow> bool \<Rightarrow> pyerr + json \<times> store" where
  "fetch_trending w fs since language use_cache =
     (let cache_key = trending_key since language in
      if use_cache then
        andthen (read_cache (md5 w) fs (clock w) ''trending'' cache_key) (\<lambda>cached.
        if truthy cached then Inr (cached, fs) else fetch_remote w fs since language)
      else fetch_remote w fs since language)"

text \<open>
  The situation in which the fallback decides the result: the cache gives nothing that
  counts (it is not consulted, or the read returns a false value), and the request to the
  primary feed ends in an \<^verbatim>\<open>HTTPError\<close> or a \<^verbatim>\<open>URLError\<close>.
\<close>

definition cache_miss :: "world \<Rightarrow> store \<Rightarrow> string \<Rightarrow> string \<Rightarrow> bool \<Rightarrow> bool" where
  "cache_miss w fs since language use_cache =
     (\<not> use_cache \<or>
      (case read_cache (md5 w) fs (clock w) ''trending'' (trending_key since language) of
         Inl e \<Rightarrow> False
       | Inr cached \<Rightarrow> \<not> truthy cached))"

definition primary_fails :: "world \<Rightarrow> string \<Rightarrow> string \<Rightarrow> bool" where
  "primary_fails w since language =
     (case feed w (feed_url since language) of
        HTTPError code \<Rightarrow> True | URLError \<Rightarrow> True | _ \<Rightarrow> False)"

text \<open>A world in which the feed answers 404 and the scraper finds nothing.\<close>

definition no_network :: world where
  "no_network = \<lparr>md5 = (\<lambda>k. k), clock = 1700000000, feed = (\<lambda>u. HTTPError 404),
     scrape_trending = (\<lambda>l s. []), utc_text = ''Thu, 01 Jan 1970 00:00:00 GMT''\<rparr>"

section \<open>Health scoring (\<^verbatim>\<open>analyzer.py\<close>)\<close>

text \<open>
  The outside world of the analyzer: what \<^verbatim>\<open>urlopen\<close> and \<^verbatim>\<open>json.loads\<close> give for a
  URL (a decoded document, an \<^verbatim>\<open>HTTPError\<close> with its code and message, or any other
  exception with its message), the configured \<^verbatim>\<open>GITHUB_TOKEN\<close>, the clock of
  \<^verbatim>\<open>datetime.now\<close> in microseconds, \<^verbatim>\<open>datetime.fromisoformat\<close> (the instant in
  microseconds, or nothing where it raises \<^verbatim>\<open>ValueError\<close>), base64 followed by UTF-8
  decoding (nothing where either raises), and the rendering of a formatted string from
  its template and arguments. One clock reading serves a whole call; the pauses between
  requests are not modelled.
\<close>

datatype api_outcome = Replied json | Refused nat string | Failed string

record github =
  api :: "string \<Rightarrow> api_outcome"
  GITHUB_TOKEN :: string
  now_us :: int
  fromisoformat :: "string \<Rightarrow> int option"
  b64decode_utf8 :: "string \<Rightarrow> string option"
  fmt :: "string \<Rightarrow> json list \<Rightarrow> string"

definition API_BASE :: string where
  "API_BASE = ''https://api.github.com''"

definition api_request :: "github \<Rightarrow> string \<Rightarrow> json" where
  "api_request g endpoint =
     (let url = (if starts_with ''/'' endpoint then API_BASE @ endpoint else endpoint) in
      case api g url of
        Replied v \<Rightarrow> v
      | Refused code msg \<Rightarrow>
          if code = 403 then JObj [(''_error'', JStr ''rate_limited'')]
          else if code = 404 then JObj [(''_error'', JStr ''not_found'')]
          else JObj [(''_error'', JStr msg)]
      | Failed msg \<Rightarrow> JObj [(''_error'', JStr msg)])"

text \<open>\<^verbatim>\<open>result and "_error" not in result\<close>.\<close>

definition usable :: "json \<Rightarrow> pyerr + bool" where
  "usable result =
     (if truthy result then andthen (py_in ''_error'' result) (\<lambda>has. Inr (\<not> has)) else Inr False)"

definition get_rate_limit :: "github \<Rightarrow> pyerr + pydict" where
  "get_rate_limit g =
     (let result = api_request g ''/rate_limit'' in
      andthen (usable result) (\<lambda>ok.
      if ok then
        andthen (py_get result ''resources'' (JObj [])) (\<lambda>resources.
        andthen (py_get resources ''core'' (JObj [])) (\<lambda>core.
        andthen (py_get core ''remaining'' (JInt 0)) (\<lambda>remaining.
        andthen (py_get core ''limit'' (JInt 60)) (\<lambda>limit.
        andthen (py_get core ''reset'' (JInt 0)) (\<lambda>reset.
        Inr [(''remaining'', remaining), (''limit'', limit), (''reset'', reset)])))))
      else Inr [(''remaining'', JInt 0), (''limit'', JInt 60), (''reset'', JInt 0)]))"

definition get_repo_info :: "github \<Rightarrow> string \<Rightarrow> string \<Rightarrow> json" where
  "get_repo_info g owner repo =
     (let result = api_request g (''/repos/'' @ owner @ ''/'' @ repo) in
      if truthy result then result else JObj [])"

definition get_commits :: "github \<Rightarrow> string \<Rightarrow> string \<Rightarrow> json list" where
  "get_commits g owner repo =
     (case api_request g (''/repos/'' @ owner @ ''/'' @ repo @ ''/commits?per_page=10'') of
        JArr result \<Rightarrow> result
      | _ \<Rightarrow> [])"

definition get_open_issues :: "github \<Rightarrow> string \<Rightarrow> string \<Rightarrow> pydict" where
  "get_open_issues g owner repo =
     (case api_request g (''/repos/'' @ owner @ ''/'' @ repo @ ''/issues?state=open&per_page=10'') of
        JArr result \<Rightarrow> [(''items'', JArr result), (''count'', JInt (int (length result)))]
      | _ \<Rightarrow> [(''items'', JArr []), (''count'', JInt 0)])"

definition get_pull_requests :: "github \<Rightarrow> string \<Rightarrow> string \<Rightarrow> json list" where
  "get_pull_requests g owner repo =
     (case api_request g (''/repos/'' @ owner @ ''/'' @ repo @ ''/pulls?state=all&per_page=20'') of
        JArr result \<Rightarrow> result
      | _ \<Rightarrow> [])"

text \<open>
  \<^verbatim>\<open>get_readme\<close>: \<^verbatim>\<open>ValueError\<close> and \<^verbatim>\<open>UnicodeDecodeError\<close> of the decoding give
  \<^verbatim>\<open>None\<close>; a content that is not a string makes \<^verbatim>\<open>b64decode\<close> raise \<^verbatim>\<open>TypeError\<close>.
\<close>

definition get_readme :: "github \<Rightarrow> string \<Rightarrow> string \<Rightarrow> pyerr + string option" where
  "get_readme g owner repo =
     (let result = api_request g (''/repos/'' @ owner @ ''/'' @ repo @ ''/readme'') in
      andthen (usable result) (\<lambda>ok.
      if ok then
        andthen (py_get result ''content'' (JStr [])) (\<lambda>content.
        case content of JStr s \<Rightarrow> Inr (b64decode_utf8 g s) | _ \<Rightarrow> Inl TypeError)
      else Inr None))"

subsection \<open>The scoring functions\<close>

text \<open>\<^verbatim>\<open>latest.replace("Z", "+00:00")\<close>.\<close>

definition replace_Z :: "string \<Rightarrow> string" where
  "replace_Z s = concat (map (\<lambda>c. if c = CHR ''Z'' then ''+00:00'' else [c]) s)"

text \<open>A day in microseconds.\<close>

definition day_us :: int where
  "day_us = 86400000000"

text \<open>The branch on the age in whole days.\<close>

definition recency :: "github \<Rightarrow> int \<Rightarrow> int \<times> json" where
  "recency g days_ago =
     (if days_ago < 7 then (20, JStr (fmt g ''Active ({}d ago)'' [JInt days_ago]))
      else if days_ago < 30 then (15, JStr (fmt g ''Recent ({}d ago)'' [JInt days_ago]))
      else if days_ago < 90 then (10, JStr (fmt g ''Moderate ({}d ago)'' [JInt days_ago]))
      else if days_ago < 180 then (5, JStr (fmt g ''Stale ({}d ago)'' [JInt days_ago]))
      else (0, JStr (fmt g ''Inactive ({}d ago)'' [JInt days_ago])))"

text \<open>
  The body of the \<^verbatim>\<open>try\<close> block of \<^verbatim>\<open>score_recent_commits\<close>: a score, or nothing when
  the date is empty. \<^verbatim>\<open>.days\<close> of the difference is its floor in days.
\<close>

definition latest_field :: "json \<Rightarrow> pyerr + json" where
  "latest_field first =
     andthen (py_get first ''commit'' (JObj [])) (\<lambda>commit.
     andthen (py_get commit ''author'' (JObj [])) (\<lambda>author.
     py_get author ''date'' (JStr [])))"

definition recent_commits_try :: "github \<Rightarrow> json \<Rightarrow> pyerr + (int \<times> json) option" where
  "recent_commits_try g first =
     andthen (latest_field first) (\<lambda>latest.
     if truthy latest then
       (case latest of
          JStr s \<Rightarrow>
            (case fromisoformat g (replace_Z s) of
               None \<Rightarrow> Inl ValueError
             | Some latest_date \<Rightarrow>
                 (let days_ago = (now_us g - latest_date) div day_us in
                  Inr (Some (recency g days_ago))))
        | _ \<Rightarrow> Inl AttributeError)
     else Inr None)"

definition score_recent_commits :: "github \<Rightarrow> json list \<Rightarrow> pyerr + int \<times> json" where
  "score_recent_commits g commits =
     (case commits of
        [] \<Rightarrow> Inr (0, JStr ''No commits found'')
      | first # rest \<Rightarrow>
          (case recent_commits_try g first of
             Inl e \<Rightarrow>
               if e = ValueError \<or> e = TypeError \<or> e = KeyError
               then Inr (10, JStr ''Unknown activity'') else Inl e
           | Inr (Some r) \<Rightarrow> Inr r
           | Inr None \<Rightarrow> Inr (10, JStr ''Unknown activity'')))"

fun join_comma :: "string list \<Rightarrow> string" where
  "join_comma [] = []"
| "join_comma [x] = x"
| "join_comma (x # y # ys) = x @ '', '' @ join_comma (y # ys)"

definition score_readme :: "string option \<Rightarrow> int \<times> json" where
  "score_readme readme =
     (case readme of
        None \<Rightarrow> (0, JStr ''No README'')
      | Some text \<Rightarrow>
          if text = [] then (0, JStr ''No README'')
          else
            (let len = int (length text);
                 has_install = list_ex (\<lambda>x. str_contains x (lower text))
                    [''install'', ''npm'', ''pip'', ''cargo'', ''setup''];
                 has_usage = list_ex (\<lambda>x. str_contains x (lower text))
                    [''usage'', ''example'', ''getting started'', ''quick start''];
                 has_badges = (str_contains ''!['' text \<or> str_contains ''[!['' text);
                 score = (if len > 2000 then 5 else if len > 500 then 3 else 0)
                   + (if has_install then 4 else 0) + (if has_usage then 4 else 0)
                   + (if has_badges then 2 else 0);
                 notes = [if len > 2000 then ''detailed'' else if len > 500 then ''basic''
                          else ''minimal'']
                   @ (if has_install then [''install docs''] else [])
                   @ (if has_usage then [''usage docs''] else [])
             in (min score 15, JStr (if notes \<noteq> [] then join_comma notes else ''Present''))))"

text \<open>\<^verbatim>\<open>sum(1 for i in issues if i.get("comments", 0) > 0)\<close>.\<close>

fun count_responded :: "json list \<Rightarrow> pyerr + nat" where
  "count_responded [] = Inr 0"
| "count_responded (i # issues) =
     andthen (py_get i ''comments'' (JInt 0)) (\<lambda>comments.
     andthen (py_num comments) (\<lambda>c.
     andthen (count_responded issues) (\<lambda>n. Inr (if c > 0 then Suc n else n))))"

text \<open>
  The ratios are rationals here and floats in the code; the two agree on the comparisons
  with 0.8, 0.5, 0.2 and 0.7, 0.3 for lists of any realistic length.
\<close>

definition response_tier :: "github \<Rightarrow> real \<Rightarrow> int \<times> json" where
  "response_tier g rate =
     (if rate > 8 / 10 then (15, JStr (fmt g ''{}% responded'' [JFloat rate]))
      else if rate > 5 / 10 then (10, JStr (fmt g ''{}% responded'' [JFloat rate]))
      else if rate > 2 / 10 then (5, JStr (fmt g ''{}% responded'' [JFloat rate]))
      else (0, JStr ''Low response rate''))"

definition score_issue_response :: "github \<Rightarrow> json list \<Rightarrow> pyerr + int \<times> json" where
  "score_issue_response g issues =
     (if issues = [] then Inr (15, JStr ''No open issues'')
      else
        andthen (count_responded issues) (\<lambda>responded.
        let rate = real responded / real (length issues) in
        Inr (response_tier g rate)))"

fun count_merged :: "json list \<Rightarrow> pyerr + nat" where
  "count_merged [] = Inr 0"
| "count_merged (pr # prs) =
     andthen (py_get pr ''merged_at'' JNull) (\<lambda>m.
     andthen (count_merged prs) (\<lambda>n. Inr (if truthy m then Suc n else n)))"

fun count_closed :: "json list \<Rightarrow> pyerr + nat" where
  "count_closed [] = Inr 0"
| "count_closed (pr # prs) =
     andthen (py_get pr ''state'' JNull) (\<lambda>s.
     andthen (count_closed prs) (\<lambda>n. Inr (if s = JStr ''closed'' then Suc n else n)))"

definition merge_tier :: "github \<Rightarrow> real \<Rightarrow> int \<times> json" where
  "merge_tier g rate =
     (if rate > 7 / 10 then (15, JStr (fmt g ''{}% merged'' [JFloat rate]))
      else if rate > 5 / 10 then (10, JStr (fmt g ''{}% merged'' [JFloat rate]))
      else if rate > 3 / 10 then (5, JStr (fmt g ''{}% merged'' [JFloat rate]))
      else (0, JStr ''Low merge rate''))"

definition score_pr_merge_rate :: "github \<Rightarrow> json list \<Rightarrow> pyerr + int \<times> json" where
  "score_pr_merge_rate g prs =
     (if prs = [] then Inr (10, JStr ''No PRs'')
      else
        andthen (count_merged prs) (\<lambda>merged.
        andthen (count_closed prs) (\<lambda>closed.
        if closed = 0 then Inr (10, JStr ''All PRs open'')
        else
          (let rate = real merged / real closed in
           Inr (merge_tier g rate)))))"

text \<open>
  \<^verbatim>\<open>score_repo_health\<close>: the dictionary of four entries, in insertion order. The star
  sign that ends the last note is written \<^verbatim>\<open>*\<close> in its template.
\<close>

definition license_points :: "json \<Rightarrow> pyerr + int \<times> json" where
  "license_points license =
     (if truthy license
      then andthen (py_get license ''spdx_id'' (JStr ''Yes'')) (\<lambda>spdx. Inr (5, spdx))
      else Inr (0, JStr ''None''))"

definition archived_points :: "json \<Rightarrow> int \<times> json" where
  "archived_points archived =
     (if truthy archived then (0, JStr ''Archived!'') else (10, JStr ''Active''))"

definition open_issues_tier :: "github \<Rightarrow> json \<Rightarrow> real \<Rightarrow> int \<times> json" where
  "open_issues_tier g open_issues n =
     (if n < 20 then (10, JStr (fmt g ''{} open'' [open_issues]))
      else if n < 100 then (7, JStr (fmt g ''{} open'' [open_issues]))
      else if n < 500 then (3, JStr (fmt g ''{} open'' [open_issues]))
      else (0, JStr (fmt g ''{} open (overloaded)'' [open_issues])))"

definition stars_tier :: "github \<Rightarrow> json \<Rightarrow> real \<Rightarrow> int \<times> json" where
  "stars_tier g stars s =
     (if s > 10000 then (10, JStr (fmt g ''{:,}*'' [stars]))
      else if s > 1000 then (7, JStr (fmt g ''{:,}*'' [stars]))
      else if s > 100 then (4, JStr (fmt g ''{:,}*'' [stars]))
      else (2, JStr (fmt g ''{:,}*'' [stars])))"

definition score_repo_health :: "github \<Rightarrow> json \<Rightarrow> pyerr + (string \<times> int \<times> json) list" where
  "score_repo_health g info =
     andthen (py_get info ''license'' JNull) (\<lambda>license.
     andthen (license_points license) (\<lambda>has_license.
     andthen (py_get info ''archived'' JNull) (\<lambda>archived.
     let not_archived = archived_points archived in
     andthen (py_get info ''open_issues_count'' (JInt 0)) (\<lambda>open_issues.
     andthen (py_num open_issues) (\<lambda>n.
     let low_open_issues = open_issues_tier g open_issues n in
     andthen (py_get info ''stargazers_count'' (JInt 0)) (\<lambda>stars.
     andthen (py_num stars) (\<lambda>s.
     let stars_velocity = stars_tier g stars s in
     Inr [(''has_license'', has_license), (''not_archived'', not_archived),
          (''low_open_issues'', low_open_issues), (''stars_velocity'', stars_velocity)])))))))"

subsection \<open>Analysing one repository and a batch\<close>

text \<open>\<^verbatim>\<open>s.split(sep)\<close> for a separator of one character.\<close>

fun split_on :: "char \<Rightarrow> string \<Rightarrow> string list" where
  "split_on sep [] = [[]]"
| "split_on sep (c # cs) =
     (if c = sep then [] # split_on sep cs
      else (case split_on sep cs of [] \<Rightarrow> [[c]] | p # ps \<Rightarrow> (c # p) # ps))"

definition grade_of :: "int \<Rightarrow> string" where
  "grade_of total_score =
     (if total_score \<ge> 85 then ''A''
      else if total_score \<ge> 70 then ''B''
      else if total_score \<ge> 55 then ''C''
      else if total_score \<ge> 40 then ''D''
      else ''F'')"

text \<open>
  The result dictionary of \<^verbatim>\<open>analyze_repo\<close>, with its keys in insertion order, from
  the eight scored entries and the display fields.
\<close>

definition result_dict :: "string \<Rightarrow> (string \<times> int \<times> json) list \<Rightarrow> pydict \<Rightarrow> pydict" where
  "result_dict owner_repo entries meta =
     (let scores = map (\<lambda>(key, score, note). (key, score)) entries;
          details = map (\<lambda>(key, score, note). (key, note)) entries;
          total_score = sum_list (map snd scores) in
      [(''repo'', JStr owner_repo),
       (''scores'', JObj (map (\<lambda>(key, score). (key, JInt score)) scores)),
       (''total'', JInt total_score),
       (''grade'', JStr (grade_of total_score)),
       (''details'', JObj details),
       (''meta'', JObj meta)])"

text \<open>The scoring part of \<^verbatim>\<open>analyze_repo\<close>, after all data has been fetched.\<close>

definition score_all ::
  "github \<Rightarrow> string \<Rightarrow> json \<Rightarrow> json list \<Rightarrow> pydict \<Rightarrow> json list \<Rightarrow> string option \<Rightarrow> pyerr + pydict" where
  "score_all g owner_repo info commits issues_data prs readme =
     andthen (score_recent_commits g commits) (\<lambda>recent.
     let readme_quality = score_readme readme in
     andthen (score_issue_response g
                (case dict_get issues_data ''items'' (JArr []) of JArr xs \<Rightarrow> xs | _ \<Rightarrow> [])) (\<lambda>issue.
     andthen (score_pr_merge_rate g prs) (\<lambda>pr.
     andthen (score_repo_health g info) (\<lambda>health_scores.
     let entries = [(''recent_commits'', recent), (''readme_quality'', readme_quality),
                    (''issue_response'', issue), (''pr_merge_rate'', pr)] @ health_scores in
     andthen (py_get info ''description'' (JStr [])) (\<lambda>description.
     andthen (py_get info ''stargazers_count'' (JInt 0)) (\<lambda>stars.
     andthen (py_get info ''language'' (JStr [])) (\<lambda>language.
     andthen (py_get info ''html_url'' (JStr [])) (\<lambda>url.
     Inr (result_dict owner_repo entries
            [(''description'', description), (''stars'', stars),
             (''language'', language), (''url'', url)])))))))))"

definition analyze_repo :: "github \<Rightarrow> string \<Rightarrow> pyerr + pydict" where
  "analyze_repo g owner_repo =
     (case split_on CHR ''/'' owner_repo of
        [owner, repo] \<Rightarrow>
          (let info = get_repo_info g owner repo in
           andthen (py_in ''_error'' info) (\<lambda>failed.
           if failed then
             andthen (py_getitem info ''_error'') (\<lambda>e.
             Inr [(''error'', e), (''repo'', JStr owner_repo)])
           else
             (let commits = get_commits g owner repo;
                  issues_data = get_open_issues g owner repo;
                  prs = get_pull_requests g owner repo in
              andthen (get_readme g owner repo) (\<lambda>readme.
              score_all g owner_repo info commits issues_data prs readme))))
      | _ \<Rightarrow> Inr [(''error'', JStr (''Invalid repo format: '' @ owner_repo))])"

text \<open>
  The quota check of \<^verbatim>\<open>analyze_repos\<close>: the list that goes on to be scored.
  \<^verbatim>\<open>remaining // 5\<close> is an integer for an integer or a boolean; for a float it is a
  float, which the slice rejects unless \<^verbatim>\<open>max\<close> has replaced it by 1.
\<close>

definition quota_prefix :: "github \<Rightarrow> json \<Rightarrow> pydict list \<Rightarrow> pyerr + pydict list" where
  "quota_prefix g remaining repos =
     (let needed = int (length repos) * 5 in
      andthen (py_num remaining) (\<lambda>r.
      if r < of_int needed \<and> GITHUB_TOKEN g = [] then
        (case remaining of
           JInt n \<Rightarrow> Inr (take (nat (max 1 (n div 5))) repos)
         | JFloat x \<Rightarrow> if \<lfloor>x / 5\<rfloor> > 1 then Inl TypeError else Inr (take 1 repos)
         | _ \<Rightarrow> Inr (take 1 repos))
      else Inr repos))"

text \<open>The loop of \<^verbatim>\<open>analyze_repos\<close>, with the list \<^verbatim>\<open>results\<close> built so far.\<close>

fun analyze_each :: "github \<Rightarrow> pydict list \<Rightarrow> pydict list \<Rightarrow> pyerr + pydict list" where
  "analyze_each g results [] = Inr results"
| "analyze_each g results (repo_info # repos) =
     (let title = dict_get repo_info ''title'' (JStr []) in
      if \<not> truthy title then analyze_each g results repos
      else
        andthen (py_in ''/'' title) (\<lambda>has_slash.
        if \<not> has_slash then analyze_each g results repos
        else
          (case title of
             JStr t \<Rightarrow>
               andthen (analyze_repo g t) (\<lambda>result. analyze_each g (results @ [result]) repos)
           | _ \<Rightarrow> Inl AttributeError)))"

text \<open>\<^verbatim>\<open>x.get("total", 0)\<close>, the sort key; the sort is stable and descending.\<close>

definition total_key :: "pydict \<Rightarrow> int" where
  "total_key x = (case dict_get x ''total'' (JInt 0) of JInt n \<Rightarrow> n | _ \<Rightarrow> 0)"

definition sort_by_total :: "pydict list \<Rightarrow> pydict list" where
  "sort_by_total results = sort_key (\<lambda>x. - total_key x) results"

definition analyze_repos :: "github \<Rightarrow> pydict list \<Rightarrow> pyerr + pydict list" where
  "analyze_repos g repos =
     andthen (get_rate_limit g) (\<lambda>rate.
     let remaining = dict_get rate ''remaining'' (JInt 0) in
     andthen (quota_prefix g remaining repos) (\<lambda>repos'.
     andthen (analyze_each g [] repos') (\<lambda>results.
     Inr (sort_by_total results))))"

text \<open>The eight sub-metrics, in the order \<^verbatim>\<open>analyze_repo\<close> stores them.\<close>

definition score_names :: "string list" where
  "score_names = [''recent_commits'', ''readme_quality'', ''issue_response'', ''pr_merge_rate'',
     ''has_license'', ''not_archived'', ''low_open_issues'', ''stars_velocity'']"

text \<open>
  A sample world: the rate limit reports 12 remaining calls, the repository \<^verbatim>\<open>a/b\<close>
  exists with one commit a day old, and every other request is answered 404.
\<close>

definition demo_api :: "string \<Rightarrow> api_outcome" where
  "demo_api url =
     (if url = ''https://api.github.com/rate_limit'' then
        Replied (JObj [(''resources'', JObj [(''core'', JObj [(''remaining'', JInt 12),
          (''limit'', JInt 60), (''reset'', JInt 0)])])])
      else if url = ''https://api.github.com/repos/a/b'' then
        Replied (JObj [(''license'', JObj [(''spdx_id'', JStr ''MIT'')]), (''archived'', JBool False),
          (''open_issues_count'', JInt 3), (''stargazers_count'', JInt 12345)])
      else if url = ''https://api.github.com/repos/a/b/commits?per_page=10'' then
        Replied (JArr [JObj [(''commit'', JObj [(''author'',
          JObj [(''date'', JStr ''2024-01-01T00:00:00Z'')])])]])
      else Refused 404 ''HTTP Error 404: Not Found'')"

definition demo :: github where
  "demo = \<lparr>api = demo_api, GITHUB_TOKEN = [], now_us = 86400000000,
     fromisoformat = (\<lambda>s. if s = ''2024-01-01T00:00:00+00:00'' then Some 0 else None),
     b64decode_utf8 = (\<lambda>s. Some s), fmt = (\<lambda>t args. t)\<rparr>"

text \<open>What \<^verbatim>\<open>analyze_repo\<close> returns for \<^verbatim>\<open>a/b\<close> in the sample world.\<close>

definition demo_result :: pydict where
  "demo_result =
     [(''repo'', JStr ''a/b''),
      (''scores'', JObj
        [(''recent_commits'', JInt 20), (''readme_quality'', JInt 0),
         (''issue_response'', JInt 15), (''pr_merge_rate'', JInt 10),
         (''has_license'', JInt 5), (''not_archived'', JInt 10),
         (''low_open_issues'', JInt 10), (''stars_velocity'', JInt 10)]),
      (''total'', JInt 80), (''grade'', JStr ''B''),
      (''details'', JObj
        [(''recent_commits'', JStr ''Active ({}d ago)''),
         (''readme_quality'', JStr ''No README''),
         (''issue_response'', JStr ''No open issues''),
         (''pr_merge_rate'', JStr ''No PRs''),
         (''has_license'', JStr ''MIT''),
         (''not_archived'', JStr ''Active''),
         (''low_open_issues'', JStr ''{} open''),
         (''stars_velocity'', JStr ''{:,}*'')]),
      (''meta'', JObj
        [(''description'', JStr []), (''stars'', JInt 12345),
         (''language'', JStr []), (''url'', JStr [])])]"

text \<open>What the loop body of \<^verbatim>\<open>analyze_repos\<close> adds to the results for one entry.\<close>

definition entry_result :: "github \<Rightarrow> pydict \<Rightarrow> pyerr + pydict list" where
  "entry_result g repo_info =
     (let title = dict_get repo_info ''title'' (JStr []) in
      if \<not> truthy title then Inr []
      else
        andthen (py_in ''/'' title) (\<lambda>has_slash.
        if \<not> has_slash then Inr []
        else
          (case title of
             JStr t \<Rightarrow> andthen (analyze_repo g t) (\<lambda>result. Inr [result])
           | _ \<Rightarrow> Inl AttributeError)))"

text \<open>Five candidates.\<close>

definition five :: "pydict list" where
  "five = [[(''title'', JStr ''c/d'')], [(''title'', JStr ''a/b'')], [(''title'', JStr ''e/f'')],
           [(''title'', JStr ''g/h'')], [(''title'', JStr ''i/j'')]]"


section \<open>Properties of the filter\<close>

lemma str_contains_Nil [simp]: "str_contains [] s"
  by (cases s) simp_all

text \<open>The substring test agrees with the library's notion of a contiguous sublist.\<close>

lemma str_contains_sublist: "str_contains sub s = sublist sub s"
proof -
  have p: "starts_with a b = prefix a b" for a b
    by (induction a b rule: starts_with.induct) simp_all
  show ?thesis
    by (induction s) (simp_all add: p sublist_Cons_right)
qed

lemma lower_Nil [simp]: "lower [] = []"
  by (simp add: lower_def)

text \<open>
  The capital E with acute accent (U+00C9) is lowered, the multiplication sign (U+00D7) is
  not; \<^verbatim>\<open>int\<close> skips a no-break space (U+00A0) but not a unit separator (U+001F), on
  which the filter raises.
\<close>

lemma lower_upper_half:
  "lower [char_of (201 :: nat), CHR ''T'', char_of (215 :: nat)] =
     [char_of (233 :: nat), CHR ''t'', char_of (215 :: nat)]"
  by code_simp

lemma py_int_white_space:
  "py_int [char_of (160 :: nat), CHR ''7'', CHR '' ''] = Inr 7"
  "py_int [char_of (31 :: nat), CHR ''7''] = Inl ValueError"
  by code_simp+

lemma filter_repos_unit_separator:
  "filter_repos [[(''stars'', JStr [char_of (31 :: nat), CHR ''7''])]] 0 None None = Inl ValueError"
  by code_simp

lemma filter_loop_step:
  "filter_loop mn mx T acc (repo # repos) =
     (case verdict mn mx T repo of
        Inl e \<Rightarrow> Inl e
      | Inr None \<Rightarrow> filter_loop mn mx T acc repos
      | Inr (Some r) \<Rightarrow> filter_loop mn mx T (acc @ [r]) repos)"
  by (simp add: verdict_def split: sum.splits bool.splits)

lemma verdict_max_zero: "verdict mn (Some 0) T repo = verdict mn None T repo"
  by (simp add: verdict_def split: sum.splits)

lemma filter_loop_max_zero:
  "filter_loop mn (Some 0) T acc repos = filter_loop mn None T acc repos"
proof (induction repos arbitrary: acc)
  case Nil
  show ?case by simp
next
  case (Cons repo repos)
  then show ?case
    by (simp only: filter_loop_step verdict_max_zero)
qed

lemma verdict_well_formed:
  "well_formed T repo \<Longrightarrow>
   verdict S None T repo = Inr (if survives S T repo then Some (with_stars_int repo) else None)"
  by (auto simp: well_formed_def verdict_def survives_def with_stars_int_def stars_of_def
        mentions_def search_keeps_def lower_field_def text_of_def is_text_def Let_def
      split: sum.splits option.splits json.splits)

lemma filter_loop_well_formed:
  "\<forall>r\<in>set repos. well_formed T r \<Longrightarrow>
   filter_loop S None T acc repos = Inr (acc @ map with_stars_int (filter (survives S T) repos))"
  by (induction repos arbitrary: acc)
     (simp_all add: verdict_well_formed filter_loop_step del: filter_loop.simps(2))

lemma verdict_parse_raises: "parse_stars repo = Inl e \<Longrightarrow> verdict mn mx T repo = Inl e"
  by (simp add: verdict_def)

lemma filter_loop_parse_raises:
  "repo \<in> set repos \<Longrightarrow> isl (parse_stars repo) \<Longrightarrow> isl (filter_loop mn mx T acc repos)"
proof (induction repos arbitrary: acc)
  case Nil
  then show ?case by simp
next
  case (Cons r repos)
  show ?case
  proof (cases "verdict mn mx T r")
    case (Inl e)
    then show ?thesis by (simp only: filter_loop_step sum.case sum.disc)
  next
    case (Inr v)
    then have "\<not> isl (parse_stars r)"
      by (cases "parse_stars r") (simp_all add: verdict_parse_raises)
    with Cons.prems have "repo \<in> set repos" by auto
    with Cons.IH Cons.prems(2) Inr show ?thesis
      by (cases v) (simp_all only: filter_loop_step sum.case option.case)
  qed
qed

subsection \<open>Decimal strings with separators\<close>

lemma digit_not_space: "is_digit c \<Longrightarrow> \<not> is_space c"
  by (auto simp: is_digit_def is_space_def Let_def)

lemma digit_not_sign: "is_digit c \<Longrightarrow> c \<noteq> CHR ''-'' \<and> c \<noteq> CHR ''+'' \<and> c \<noteq> CHR ''_''"
  by (auto simp: is_digit_def)

lemma parse_digits_all:
  "\<forall>c\<in>set ds. is_digit c \<Longrightarrow>
   parse_digits acc ds = Some (foldl (\<lambda>acc c. 10 * acc + digit_val c) acc ds)"
  by (induction ds arbitrary: acc) simp_all

lemma strip_digits:
  assumes "\<forall>c\<in>set ds. is_digit c"
  shows "strip ds = ds"
proof (cases "ds = []")
  case True
  then show ?thesis by (simp add: strip_def)
next
  case False
  with assms have "\<not> is_space (hd ds)" and "\<not> is_space (last ds)"
    by (simp_all add: digit_not_space)
  with False have "dropWhile is_space ds = ds" and "dropWhile is_space (rev ds) = rev ds"
    by (simp_all add: dropWhile_eq_self_iff hd_rev)
  then show ?thesis by (simp add: strip_def)
qed

lemma py_int_digits:
  assumes "\<forall>c\<in>set ds. is_digit c" and "ds \<noteq> []"
  shows "py_int ds = Inr (int (decimal ds))"
proof -
  obtain c cs where ds: "ds = c # cs" using assms(2) by (cases ds) auto
  with assms(1) have c: "is_digit c" and cs: "\<forall>x\<in>set cs. is_digit x" by auto
  have pu: "parse_unsigned (c # cs) = Some (decimal (c # cs))"
    using c by (simp add: parse_unsigned_def parse_digits_all [OF cs] decimal_def)
  have st: "strip (c # cs) = c # cs"
    using strip_digits [OF assms(1)] by (simp add: ds)
  show ?thesis
    unfolding ds py_int_def st Let_def using digit_not_sign [OF c] pu by simp
qed

lemma parse_unsigned_no_digit: "\<not> (\<exists>c\<in>set s. is_digit c) \<Longrightarrow> parse_unsigned s = None"
  by (cases s) (auto simp: parse_unsigned_def)

lemma set_strip: "set (strip s) \<subseteq> set s"
proof -
  have "set (dropWhile P xs) \<subseteq> set xs" for P and xs :: string
    by (meson set_dropWhileD subsetI)
  then show ?thesis
    unfolding strip_def by (metis set_rev subset_trans)
qed

lemma py_int_no_digit:
  assumes "\<not> (\<exists>c\<in>set s. is_digit c)"
  shows "py_int s = Inl ValueError"
proof -
  have n: "\<not> (\<exists>c\<in>set (strip s). is_digit c)"
    using assms set_strip by blast
  show ?thesis
  proof (cases "strip s")
    case Nil
    then show ?thesis by (simp add: py_int_def)
  next
    case (Cons c r)
    with n have "\<not> (\<exists>x\<in>set r. is_digit x)" by auto
    then have "parse_unsigned r = None" by (rule parse_unsigned_no_digit)
    moreover have "parse_unsigned (c # r) = None"
      using n Cons parse_unsigned_no_digit by metis
    ultimately show ?thesis by (simp add: py_int_def Cons)
  qed
qed

lemma filter_commas:
  "\<forall>c\<in>set s. is_digit c \<or> c = CHR '','' \<Longrightarrow>
   filter (\<lambda>c. c \<noteq> CHR '','') s = filter is_digit s"
  by (induction s) (auto simp: is_digit_def)

lemmas eval_str =
  py_int_def strip_def is_space_def parse_unsigned_def is_digit_def digit_val_def
  lower_def lower_char_def decimal_def Let_def

lemmas eval_filter =
  filter_repos_def parse_stars_def dict_get_def search_keeps_def lower_field_def
  stars_of_def text_of_def is_text_def mentions_def survives_def with_stars_int_def
  well_formed_def

text \<open>
  C2 (amended). The star count of an entry is read by removing the commas of its
  \<^verbatim>\<open>stars\<close> string and converting the rest with \<^verbatim>\<open>int\<close>: a missing field reads as 0, and
  a string of decimal digits and commas with at least one digit reads as the number its
  digits denote (\<^verbatim>\<open>"12,345"\<close> as 12345). A string without any digit is not read as 0: the
  conversion raises \<^verbatim>\<open>ValueError\<close>, and so does every call of \<^verbatim>\<open>filter_repos\<close> on a
  list that holds such an entry.
\<close>

theorem parse_stars_separators:
  "(map_of repo ''stars'' = None \<longrightarrow> parse_stars repo = Inr 0)
   \<and> (map_of repo ''stars'' = Some (JStr s) \<and> (\<forall>c\<in>set s. is_digit c \<or> c = CHR '','')
        \<and> (\<exists>c\<in>set s. is_digit c)
      \<longrightarrow> parse_stars repo = Inr (int (decimal (filter is_digit s))))
   \<and> (map_of repo ''stars'' = Some (JStr s) \<and> \<not> (\<exists>c\<in>set s. is_digit c)
      \<longrightarrow> parse_stars repo = Inl ValueError
          \<and> (repo \<in> set repos \<longrightarrow> isl (filter_repos repos mn mx T)))"
proof (intro conjI impI)
  assume "map_of repo ''stars'' = None"
  then show "parse_stars repo = Inr 0"
    by (simp add: parse_stars_def dict_get_def eval_str)
next
  assume a: "map_of repo ''stars'' = Some (JStr s) \<and> (\<forall>c\<in>set s. is_digit c \<or> c = CHR '','')
    \<and> (\<exists>c\<in>set s. is_digit c)"
  then have f: "filter (\<lambda>c. c \<noteq> CHR '','') s = filter is_digit s"
    by (simp add: filter_commas)
  have "\<forall>c\<in>set (filter is_digit s). is_digit c" by simp
  moreover have "filter is_digit s \<noteq> []"
    using a by (simp add: filter_empty_conv)
  ultimately have "py_int (filter is_digit s) = Inr (int (decimal (filter is_digit s)))"
    by (rule py_int_digits)
  with a f show "parse_stars repo = Inr (int (decimal (filter is_digit s)))"
    by (simp add: parse_stars_def dict_get_def)
next
  assume b: "map_of repo ''stars'' = Some (JStr s) \<and> \<not> (\<exists>c\<in>set s. is_digit c)"
  then have "\<not> (\<exists>c\<in>set (filter (\<lambda>c. c \<noteq> CHR '','') s). is_digit c)" by auto
  then have "py_int (filter (\<lambda>c. c \<noteq> CHR '','') s) = Inl ValueError"
    by (rule py_int_no_digit)
  with b show p: "parse_stars repo = Inl ValueError"
    by (simp add: parse_stars_def dict_get_def)
  assume "repo \<in> set repos"
  moreover have "isl (parse_stars repo)"
    using p by simp
  ultimately show "isl (filter_repos repos mn mx T)"
    unfolding filter_repos_def by (rule filter_loop_parse_raises)
qed

theorem parse_stars_separators_witness:
  "parse_stars [(''title'', JStr ''owner/repo-a'')] = Inr 0
   \<and> parse_stars [(''stars'', JStr ''12,345'')] = Inr 12345
   \<and> parse_stars [(''stars'', JStr ''n/a'')] = Inl ValueError
   \<and> isl (filter_repos [[(''stars'', JStr ''890'')], [(''stars'', JStr ''n/a'')]] 0 None None)"
  using parse_stars_separators [of "[(''title'', JStr ''owner/repo-a'')]" "[]"]
    parse_stars_separators [of "[(''stars'', JStr ''12,345'')]" "''12,345''"]
    parse_stars_separators [of "[(''stars'', JStr ''n/a'')]" "''n/a''"
      "[[(''stars'', JStr ''890'')], [(''stars'', JStr ''n/a'')]]" 0 None None]
  by (simp add: eval_str)

theorem parse_stars_malformed_counterexample:
  "parse_stars [(''title'', JStr ''owner/repo-a''), (''stars'', JStr ''1.2k'')] = Inl ValueError
   \<and> filter_repos [[(''title'', JStr ''owner/repo-a''), (''stars'', JStr ''1.2k'')]] 0 None None
       = Inl ValueError"
  by (simp add: eval_filter eval_str)

text \<open>
  C6 (amended). On a list whose entries all have a star field that \<^verbatim>\<open>int\<close> accepts
  (and, when a non-empty search term is given, a title and a description that are strings
  or missing), \<^verbatim>\<open>filter_repos(entries, min_stars=S, search=T)\<close> returns, in input order,
  exactly the entries with at least \<open>S\<close> stars whose lowered title or description contains
  the lowered term, each with its derived field \<^verbatim>\<open>_stars_int\<close>.
\<close>

theorem filter_repos_exact_subset:
  assumes "\<forall>r\<in>set repos. well_formed T r"
  shows "filter_repos repos S None T = Inr (map with_stars_int (filter (survives S T) repos))"
  using filter_loop_well_formed [OF assms, of S "[]"] by (simp add: filter_repos_def)

theorem filter_repos_exact_subset_witness:
  "filter_repos
     [[(''title'', JStr ''owner/repo-a''), (''description'', JStr ''A great Python framework''),
       (''stars'', JStr ''12,345'')],
      [(''title'', JStr ''org/repo-b''), (''description'', JStr ''Rust systems tool''),
       (''stars'', JStr ''890'')],
      [(''title'', JStr ''user/py''), (''description'', JStr []), (''stars'', JStr ''45,000'')]]
     1000 None (Some ''PY'')
   = Inr
     [[(''title'', JStr ''owner/repo-a''), (''description'', JStr ''A great Python framework''),
       (''stars'', JStr ''12,345''), (''_stars_int'', JInt 12345)],
      [(''title'', JStr ''user/py''), (''description'', JStr []), (''stars'', JStr ''45,000''),
       (''_stars_int'', JInt 45000)]]"
  using filter_repos_exact_subset [of
     "[[(''title'', JStr ''owner/repo-a''), (''description'', JStr ''A great Python framework''),
       (''stars'', JStr ''12,345'')],
      [(''title'', JStr ''org/repo-b''), (''description'', JStr ''Rust systems tool''),
       (''stars'', JStr ''890'')],
      [(''title'', JStr ''user/py''), (''description'', JStr []), (''stars'', JStr ''45,000'')]]"
     "Some ''PY''" 1000]
  by (simp add: eval_filter eval_str)

theorem filter_repos_raises_counterexample:
  "filter_repos
     [[(''title'', JStr ''owner/repo-a''), (''stars'', JStr ''10'')],
      [(''title'', JStr ''org/repo-b''), (''stars'', JStr [])]]
     5 None None = Inl ValueError"
  by (simp add: eval_filter eval_str)

text \<open>
  C10. \<^verbatim>\<open>max_stars=0\<close> behaves as \<^verbatim>\<open>max_stars=None\<close>: the call gives the same result,
  so no entry is dropped for having more than 0 stars.
\<close>

theorem filter_repos_max_zero_unbounded:
  "filter_repos repos S (Some 0) T = filter_repos repos S None T"
  by (simp add: filter_repos_def filter_loop_max_zero)

theorem filter_repos_max_zero_unbounded_witness:
  "filter_repos [[(''title'', JStr ''user/repo-c''), (''stars'', JStr ''45,000'')]] 0 (Some 0) None
   = Inr [[(''title'', JStr ''user/repo-c''), (''stars'', JStr ''45,000''),
           (''_stars_int'', JInt 45000)]]"
  using filter_repos_max_zero_unbounded
    [of "[[(''title'', JStr ''user/repo-c''), (''stars'', JStr ''45,000'')]]" 0 None]
  by (simp add: eval_filter eval_str)

section \<open>Properties of the cache store\<close>

lemma andthen_simps [simp]:
  "andthen (Inl e) f = Inl e" "andthen (Inr x) f = f x"
  by (simp_all add: andthen_def)

text \<open>What \<^verbatim>\<open>read_cache\<close> does degrade to a miss.\<close>

lemma read_cache_miss:
  "fs (get_cache_path dg ct key) \<in> {Absent, Unreadable, NotJson} \<Longrightarrow>
   read_cache dg fs now ct key = Inr JNull"
  by (auto simp: read_cache_def read_cache_try_def Let_def)

lemma read_cache_expired:
  "fs (get_cache_path dg ct key) = Doc (JObj d) \<Longrightarrow>
   clock_minus now (dict_get d ''_cached_at'' (JInt 0)) = Inr age \<Longrightarrow>
   age > of_int (ttl_of ct) \<Longrightarrow> read_cache dg fs now ct key = Inr JNull"
  by (auto simp: read_cache_def read_cache_try_def Let_def py_get_def)

lemma read_cache_overflow:
  "read_cache dg
     ((\<lambda>p. Absent)(get_cache_path dg ct key := Doc (JObj [(''_cached_at'', JInt (2 ^ 1024))])))
     now ct key = Inl OverflowError"
  by (simp add: read_cache_def read_cache_try_def Let_def py_get_def clock_minus_def dict_get_def)


text \<open>
  C1. \<^verbatim>\<open>read_cache\<close> is meant never to raise, whatever the cache file holds. It does
  raise on three kinds of content that its handler
  \<^verbatim>\<open>except (OSError, json.JSONDecodeError, KeyError)\<close> misses: a JSON document that is
  not an object (\<^verbatim>\<open>[]\<close> has no \<^verbatim>\<open>get\<close>: \<^verbatim>\<open>AttributeError\<close>), bytes that are not UTF-8
  (\<^verbatim>\<open>UnicodeDecodeError\<close>), and an object whose \<^verbatim>\<open>_cached_at\<close> is not a number
  (\<^verbatim>\<open>TypeError\<close> in the subtraction).
\<close>

theorem read_cache_raises:
  "read_cache dg ((\<lambda>p. Absent)(get_cache_path dg ''trending'' ''daily_all'' := Doc (JArr [])))
     now ''trending'' ''daily_all'' = Inl AttributeError
   \<and> read_cache dg ((\<lambda>p. Absent)(get_cache_path dg ''trending'' ''daily_all'' := NotUtf8))
     now ''trending'' ''daily_all'' = Inl UnicodeDecodeError
   \<and> read_cache dg
       ((\<lambda>p. Absent)(get_cache_path dg ''trending'' ''daily_all'' :=
          Doc (JObj [(''_cached_at'', JNull)])))
     now ''trending'' ''daily_all'' = Inl TypeError"
  by (simp add: read_cache_def read_cache_try_def Let_def py_get_def clock_minus_def dict_get_def)



section \<open>Properties of the fetcher\<close>

lemma fetch_remote_fails:
  assumes "primary_fails w since language"
  shows "fetch_remote w fs since language = fallback w fs since language"
  using assms by (simp add: fetch_remote_def primary_fails_def Let_def split: feed_outcome.splits)

lemma fetch_trending_miss:
  assumes "cache_miss w fs since language use_cache"
  shows "fetch_trending w fs since language use_cache = fetch_remote w fs since language"
  using assms
  by (auto simp: fetch_trending_def cache_miss_def Let_def split: sum.splits)

text \<open>Any other exception of the request is not a trigger for the fallback: it propagates.\<close>

lemma fetch_trending_broken:
  assumes "cache_miss w fs since language use_cache"
    and "feed w (feed_url since language) = Broken e"
  shows "fetch_trending w fs since language use_cache = Inl e"
  using assms(2) by (simp add: fetch_trending_miss [OF assms(1)] fetch_remote_def Let_def)

text \<open>
  C5. When the cache gives nothing and the primary feed fails, an empty scrape makes
  \<^verbatim>\<open>fetch_trending\<close> exit with status 1, and whatever document it does return carries a
  non-empty list of items.
\<close>

theorem fetch_trending_no_data_is_fatal:
  assumes "cache_miss w fs since language use_cache"
    and "primary_fails w since language"
  shows "(scrape_trending w (if language \<noteq> ''all'' then language else []) since = [] \<longrightarrow>
            fetch_trending w fs since language use_cache = Inl (SystemExit 1))
       \<and> (\<forall>data fs'. fetch_trending w fs since language use_cache = Inr (data, fs') \<longrightarrow>
            (\<exists>repos. repos \<noteq> [] \<and> py_getitem data ''items'' = Inr (JArr repos)))"
  by (simp add: fetch_trending_miss [OF assms(1)] fetch_remote_fails [OF assms(2)]
        fallback_def Let_def py_getitem_def)

theorem fetch_trending_no_data_is_fatal_witness:
  "cache_miss no_network (\<lambda>p. Absent) ''daily'' ''zig'' True
   \<and> primary_fails no_network ''daily'' ''zig''
   \<and> fetch_trending no_network (\<lambda>p. Absent) ''daily'' ''zig'' True = Inl (SystemExit 1)"
  using fetch_trending_no_data_is_fatal [of no_network "\<lambda>p. Absent" "''daily''" "''zig''" True]
  by (simp add: cache_miss_def primary_fails_def no_network_def read_cache_def Let_def)

section \<open>Properties of the analyzer\<close>

lemma andthen_Inr_iff:
  "andthen m f = Inr y \<longleftrightarrow> (\<exists>x. m = Inr x \<and> f x = Inr y)"
  by (cases m) simp_all

lemma days_lt: "a div day_us < n \<longleftrightarrow> a < n * day_us"
proof -
  define q where "q = a div 86400000000"
  define r where "r = a mod 86400000000"
  have "a = 86400000000 * q + r" "0 \<le> r" "r < 86400000000"
    by (simp_all add: q_def r_def)
  then show ?thesis
    unfolding day_us_def q_def [symmetric] by linarith
qed

lemma recency_tiers:
  "fst (recency g (a div day_us)) =
     (if a < 7 * day_us then 20 else if a < 30 * day_us then 15
      else if a < 90 * day_us then 10 else if a < 180 * day_us then 5 else 0)"
  by (simp add: recency_def days_lt)

lemma score_recent_commits_dated:
  assumes "latest_field first = Inr (JStr s)" and "s \<noteq> []"
    and "fromisoformat g (replace_Z s) = Some t"
  shows "score_recent_commits g (first # rest) = Inr (recency g ((now_us g - t) div day_us))"
  using assms by (simp add: score_recent_commits_def recent_commits_try_def Let_def)

lemma score_recent_commits_unparseable:
  assumes "latest_field first = Inr (JStr s)" and "s \<noteq> []"
    and "fromisoformat g (replace_Z s) = None"
  shows "score_recent_commits g (first # rest) = Inr (10, JStr ''Unknown activity'')"
  using assms by (simp add: score_recent_commits_def recent_commits_try_def Let_def)

text \<open>
  Every commit list falls under one of the cases of \<^verbatim>\<open>score_recent_commits\<close>: the
  empty list scores 0; a latest commit whose date is missing, empty or otherwise false
  scores 10; a date string that \<^verbatim>\<open>fromisoformat\<close> rejects scores 10; a date it accepts
  scores 20, 15, 10, 5 or 0 as the age of the commit is under 7, 30, 90, 180 days or not
  (a commit timestamped now has age 0). Where the commit, its \<^verbatim>\<open>commit\<close> field or its
  \<^verbatim>\<open>author\<close> field is not a dictionary, or the date is a true value that is not a
  string, the call raises \<^verbatim>\<open>AttributeError\<close>.
\<close>

lemma latest_field_raises: "latest_field first = Inl e \<Longrightarrow> e = AttributeError"
  by (auto simp: latest_field_def py_get_def andthen_def split: json.splits sum.splits)

lemma score_recent_commits_cases:
  "(\<exists>note. score_recent_commits g [] = Inr (0, note))
   \<and> (latest_field first = Inl e \<longrightarrow> score_recent_commits g (first # rest) = Inl AttributeError)
   \<and> (latest_field first = Inr v \<and> \<not> truthy v \<longrightarrow>
        (\<exists>note. score_recent_commits g (first # rest) = Inr (10, note)))
   \<and> (latest_field first = Inr v \<and> truthy v \<and> (\<forall>s. v \<noteq> JStr s) \<longrightarrow>
        score_recent_commits g (first # rest) = Inl AttributeError)
   \<and> (latest_field first = Inr (JStr s) \<and> s \<noteq> [] \<longrightarrow>
        (fromisoformat g (replace_Z s) = None \<longrightarrow>
           (\<exists>note. score_recent_commits g (first # rest) = Inr (10, note)))
        \<and> (\<forall>t. fromisoformat g (replace_Z s) = Some t \<longrightarrow>
             (\<exists>note. score_recent_commits g (first # rest) =
                Inr (if now_us g - t < 7 * day_us then 20
                     else if now_us g - t < 30 * day_us then 15
                     else if now_us g - t < 90 * day_us then 10
                     else if now_us g - t < 180 * day_us then 5
                     else 0, note))))"
proof (intro conjI impI allI)
  show "\<exists>note. score_recent_commits g [] = Inr (0, note)"
    by (simp add: score_recent_commits_def)
next
  assume a: "latest_field first = Inl e"
  then have "e = AttributeError" by (rule latest_field_raises)
  with a show "score_recent_commits g (first # rest) = Inl AttributeError"
    by (simp add: score_recent_commits_def recent_commits_try_def)
next
  assume "latest_field first = Inr v \<and> \<not> truthy v"
  then show "\<exists>note. score_recent_commits g (first # rest) = Inr (10, note)"
    by (simp add: score_recent_commits_def recent_commits_try_def)
next
  assume "latest_field first = Inr v \<and> truthy v \<and> (\<forall>s. v \<noteq> JStr s)"
  then show "score_recent_commits g (first # rest) = Inl AttributeError"
    by (cases v) (simp_all add: score_recent_commits_def recent_commits_try_def)
next
  assume "latest_field first = Inr (JStr s) \<and> s \<noteq> []" "fromisoformat g (replace_Z s) = None"
  then show "\<exists>note. score_recent_commits g (first # rest) = Inr (10, note)"
    by (simp add: score_recent_commits_unparseable)
next
  fix t
  assume a: "latest_field first = Inr (JStr s) \<and> s \<noteq> []" "fromisoformat g (replace_Z s) = Some t"
  let ?r = "recency g ((now_us g - t) div day_us)"
  have "score_recent_commits g (first # rest) = Inr (fst ?r, snd ?r)"
    using a by (simp add: score_recent_commits_dated)
  then show "\<exists>note. score_recent_commits g (first # rest) =
                Inr (if now_us g - t < 7 * day_us then 20
                     else if now_us g - t < 30 * day_us then 15
                     else if now_us g - t < 90 * day_us then 10
                     else if now_us g - t < 180 * day_us then 5
                     else 0, note)"
    unfolding recency_tiers by blast
qed

text \<open>
  C9. \<^verbatim>\<open>score_recent_commits\<close> is meant to give a score for every commit list, with 10
  as the answer for a latest commit whose date cannot be read. It raises instead on a
  latest commit whose \<^verbatim>\<open>author\<close> is \<^verbatim>\<open>null\<close>, on a commit that is not a dictionary and
  on a date that is a number: each is an \<^verbatim>\<open>AttributeError\<close>, which the handler
  \<^verbatim>\<open>except (ValueError, TypeError, KeyError)\<close> misses.
\<close>

theorem score_recent_commits_raises:
  "score_recent_commits g [JObj [(''commit'', JObj [(''author'', JNull)])]] = Inl AttributeError
   \<and> score_recent_commits g [JStr ''deadbeef''] = Inl AttributeError
   \<and> score_recent_commits g
        [JObj [(''commit'', JObj [(''author'', JObj [(''date'', JInt 20240101)])])]]
      = Inl AttributeError"
  by (simp add: score_recent_commits_def recent_commits_try_def latest_field_def py_get_def
      dict_get_def)

lemma recency_range: "0 \<le> fst (recency g d) \<and> fst (recency g d) \<le> 20"
  by (simp add: recency_def)

lemma score_recent_commits_range:
  assumes "score_recent_commits g commits = Inr (s, n)"
  shows "0 \<le> s \<and> s \<le> 20"
proof (cases commits)
  case Nil
  with assms show ?thesis by (simp add: score_recent_commits_def)
next
  case (Cons first rest)
  show ?thesis
  proof (cases "recent_commits_try g first")
    case (Inl e)
    with assms Cons show ?thesis
      by (auto simp: score_recent_commits_def split: if_splits)
  next
    case (Inr v)
    show ?thesis
    proof (cases v)
      case None
      with assms Cons Inr show ?thesis by (auto simp: score_recent_commits_def)
    next
      case (Some r)
      with Inr have "\<exists>d. r = recency g d"
        by (auto simp: recent_commits_try_def andthen_Inr_iff Let_def
            split: if_splits json.splits option.splits)
      then obtain d where "r = recency g d" ..
      with assms Cons Inr Some recency_range [of g d] show ?thesis
        by (auto simp: score_recent_commits_def)
    qed
  qed
qed

lemma score_readme_range: "0 \<le> fst (score_readme r) \<and> fst (score_readme r) \<le> 15"
  by (simp add: score_readme_def Let_def split: option.splits)

lemma response_tier_range: "response_tier g r = (s, n) \<Longrightarrow> 0 \<le> s \<and> s \<le> 15"
  by (auto simp: response_tier_def split: if_splits)

lemma merge_tier_range: "merge_tier g r = (s, n) \<Longrightarrow> 0 \<le> s \<and> s \<le> 15"
  by (auto simp: merge_tier_def split: if_splits)

lemma score_issue_response_range:
  assumes "score_issue_response g issues = Inr (s, n)"
  shows "0 \<le> s \<and> s \<le> 15"
  using assms
  by (auto simp: score_issue_response_def andthen_Inr_iff Let_def split: if_splits
      dest: response_tier_range)

lemma score_pr_merge_rate_range:
  assumes "score_pr_merge_rate g prs = Inr (s, n)"
  shows "0 \<le> s \<and> s \<le> 15"
  using assms
  by (auto simp: score_pr_merge_rate_def andthen_Inr_iff Let_def split: if_splits
      dest: merge_tier_range)

lemma license_points_range:
  "license_points l = Inr (a, na) \<Longrightarrow> 0 \<le> a \<and> a \<le> 5"
  by (auto simp: license_points_def andthen_Inr_iff split: if_splits)

lemma archived_points_range:
  "0 \<le> fst (archived_points x) \<and> fst (archived_points x) \<le> 10"
  by (simp add: archived_points_def)

lemma open_issues_tier_range:
  "0 \<le> fst (open_issues_tier g v n) \<and> fst (open_issues_tier g v n) \<le> 10"
  by (simp add: open_issues_tier_def)

lemma stars_tier_range:
  "2 \<le> fst (stars_tier g v n) \<and> fst (stars_tier g v n) \<le> 10"
  by (simp add: stars_tier_def)

lemma score_repo_health_shape:
  assumes "score_repo_health g info = Inr hs"
  shows "\<exists>a na b nb c nc d nd.
           hs = [(''has_license'', a, na), (''not_archived'', b, nb),
                 (''low_open_issues'', c, nc), (''stars_velocity'', d, nd)]
           \<and> 0 \<le> a \<and> a \<le> 5 \<and> 0 \<le> b \<and> b \<le> 10 \<and> 0 \<le> c \<and> c \<le> 10 \<and> 2 \<le> d \<and> d \<le> 10"
proof -
  from assms obtain license hl archived open_issues n stars sv where
    hl: "license_points license = Inr hl"
    and hs: "hs = [(''has_license'', hl), (''not_archived'', archived_points archived),
        (''low_open_issues'', open_issues_tier g open_issues n),
        (''stars_velocity'', stars_tier g stars sv)]"
    unfolding score_repo_health_def andthen_Inr_iff Let_def by auto
  obtain a na where a: "hl = (a, na)" by (cases hl)
  have "hs = [(''has_license'', a, na),
      (''not_archived'', fst (archived_points archived), snd (archived_points archived)),
      (''low_open_issues'', fst (open_issues_tier g open_issues n), snd (open_issues_tier g open_issues n)),
      (''stars_velocity'', fst (stars_tier g stars sv), snd (stars_tier g stars sv))]"
    unfolding hs a by simp
  moreover have "0 \<le> a \<and> a \<le> 5"
    using hl a license_points_range by blast
  ultimately show ?thesis
    using archived_points_range [of archived] open_issues_tier_range [of g open_issues n]
      stars_tier_range [of g stars sv]
    by blast
qed

lemma score_all_shape:
  assumes "score_all g owner_repo info commits issues_data prs readme = Inr result"
  shows "\<exists>ns. length ns = 8
     \<and> map_of result ''error'' = None
     \<and> map_of result ''scores'' = Some (JObj (zip score_names (map JInt ns)))
     \<and> map_of result ''total'' = Some (JInt (sum_list ns))
     \<and> 0 \<le> sum_list ns \<and> sum_list ns \<le> 100
     \<and> map_of result ''grade'' = Some (JStr (grade_of (sum_list ns)))"
proof -
  from assms obtain r1 r3 r4 hs meta where
    r1: "score_recent_commits g commits = Inr r1"
    and r3: "score_issue_response g
                (case dict_get issues_data ''items'' (JArr []) of JArr xs \<Rightarrow> xs | _ \<Rightarrow> []) = Inr r3"
    and r4: "score_pr_merge_rate g prs = Inr r4"
    and h: "score_repo_health g info = Inr hs"
    and res: "result = result_dict owner_repo
       ([(''recent_commits'', r1), (''readme_quality'', score_readme readme),
         (''issue_response'', r3), (''pr_merge_rate'', r4)] @ hs) meta"
    unfolding score_all_def andthen_Inr_iff Let_def by auto
  obtain s1 n1 where p1: "r1 = (s1, n1)" by (cases r1)
  obtain s2 n2 where p2: "score_readme readme = (s2, n2)" by (cases "score_readme readme")
  obtain s3 n3 where p3: "r3 = (s3, n3)" by (cases r3)
  obtain s4 n4 where p4: "r4 = (s4, n4)" by (cases r4)
  from score_repo_health_shape [OF h] obtain a na b nb c nc d nd where
    hs: "hs = [(''has_license'', a, na), (''not_archived'', b, nb),
                 (''low_open_issues'', c, nc), (''stars_velocity'', d, nd)]"
    and rh: "0 \<le> a" "a \<le> 5" "0 \<le> b" "b \<le> 10" "0 \<le> c" "c \<le> 10" "2 \<le> d" "d \<le> 10"
    by blast
  let ?ns = "[s1, s2, s3, s4, a, b, c, d]"
  have b1: "0 \<le> s1 \<and> s1 \<le> 20" using r1 p1 score_recent_commits_range by blast
  have b2: "0 \<le> s2 \<and> s2 \<le> 15" using score_readme_range [of readme] p2 by simp
  have b3: "0 \<le> s3 \<and> s3 \<le> 15" using r3 p3 score_issue_response_range by blast
  have b4: "0 \<le> s4 \<and> s4 \<le> 15" using r4 p4 score_pr_merge_rate_range by blast
  have "length ?ns = 8" by simp
  moreover have "map_of result ''error'' = None"
    unfolding res by (simp add: result_dict_def Let_def)
  moreover have "map_of result ''scores'' = Some (JObj (zip score_names (map JInt ?ns)))"
    unfolding res hs p1 p2 p3 p4 by (simp add: result_dict_def Let_def score_names_def)
  moreover have "map_of result ''total'' = Some (JInt (sum_list ?ns))"
    unfolding res hs p1 p2 p3 p4 by (simp add: result_dict_def Let_def)
  moreover have "0 \<le> sum_list ?ns \<and> sum_list ?ns \<le> 100"
    using b1 b2 b3 b4 rh by simp
  moreover have "map_of result ''grade'' = Some (JStr (grade_of (sum_list ?ns)))"
    unfolding res hs p1 p2 p3 p4 by (simp add: result_dict_def Let_def)
  ultimately show ?thesis by blast
qed

lemma analyze_repo_scored:
  assumes "analyze_repo g owner_repo = Inr result" and "map_of result ''error'' = None"
  shows "\<exists>info commits issues_data prs readme.
           score_all g owner_repo info commits issues_data prs readme = Inr result"
  using assms
  by (auto simp: analyze_repo_def Let_def andthen_Inr_iff split: if_splits list.splits) blast

text \<open>
  C4. A result of \<^verbatim>\<open>analyze_repo\<close> without an \<^verbatim>\<open>error\<close> key holds eight scores under
  the eight metric names; its total is their sum and lies between 0 and 100, and its
  grade is A, B, C, D or F as the total reaches 85, 70, 55, 40 or not.
\<close>

theorem analyze_repo_total_and_grade:
  assumes "analyze_repo g owner_repo = Inr result" and "map_of result ''error'' = None"
  shows "\<exists>ns. length ns = 8
     \<and> map_of result ''scores'' = Some (JObj (zip score_names (map JInt ns)))
     \<and> map_of result ''total'' = Some (JInt (sum_list ns))
     \<and> 0 \<le> sum_list ns \<and> sum_list ns \<le> 100
     \<and> map_of result ''grade'' =
         Some (JStr (if 85 \<le> sum_list ns then ''A'' else if 70 \<le> sum_list ns then ''B''
                     else if 55 \<le> sum_list ns then ''C'' else if 40 \<le> sum_list ns then ''D''
                     else ''F''))"
proof -
  from analyze_repo_scored [OF assms] obtain info commits issues_data prs readme where
    "score_all g owner_repo info commits issues_data prs readme = Inr result" by blast
  from score_all_shape [OF this] show ?thesis
    unfolding grade_of_def by blast
qed

text \<open>Unfolding for concrete evaluation.\<close>

lemmas eval_py = py_get_def py_in_def py_getitem_def py_num_def dict_get_def Let_def

lemmas eval_analyzer =
  analyze_repos_def analyze_repo_def quota_prefix_def sort_by_total_def total_key_def
  get_rate_limit_def usable_def api_request_def API_BASE_def get_repo_info_def get_commits_def
  get_open_issues_def get_pull_requests_def get_readme_def score_all_def result_dict_def
  score_recent_commits_def recent_commits_try_def latest_field_def recency_def replace_Z_def
  day_us_def score_readme_def score_issue_response_def score_pr_merge_rate_def
  score_repo_health_def license_points_def archived_points_def open_issues_tier_def
  stars_tier_def response_tier_def merge_tier_def grade_of_def demo_def demo_api_def

lemma demo_a_b: "analyze_repo demo ''a/b'' = Inr demo_result"
  by (simp add: eval_analyzer eval_py demo_result_def)

theorem analyze_repo_total_and_grade_witness:
  "analyze_repo demo ''a/b'' = Inr demo_result \<and> map_of demo_result ''error'' = None
   \<and> map_of demo_result ''total'' = Some (JInt 80)
   \<and> map_of demo_result ''grade'' = Some (JStr ''B'')
   \<and> (\<exists>ns. length ns = 8
     \<and> map_of demo_result ''scores'' = Some (JObj (zip score_names (map JInt ns)))
     \<and> map_of demo_result ''total'' = Some (JInt (sum_list ns))
     \<and> 0 \<le> sum_list ns \<and> sum_list ns \<le> 100)"
proof -
  have n: "map_of demo_result ''error'' = None"
    by (simp add: demo_result_def)
  from analyze_repo_total_and_grade [OF demo_a_b n] demo_a_b n show ?thesis
    by (auto simp: demo_result_def)
qed

lemma score_recent_commits_sample:
  "(\<exists>note. score_recent_commits demo
         [JObj [(''commit'', JObj [(''author'', JObj [(''date'', JStr ''2024-01-01T00:00:00Z'')])])]]
         = Inr (20, note))
   \<and> (\<exists>note. score_recent_commits demo
         [JObj [(''commit'', JObj [(''author'', JObj [(''date'', JStr ''yesterday'')])])]]
         = Inr (10, note))
   \<and> (\<exists>note. score_recent_commits demo [JObj [(''commit'', JObj [])]] = Inr (10, note))"
  using score_recent_commits_cases [of demo
      "JObj [(''commit'', JObj [(''author'', JObj [(''date'', JStr ''2024-01-01T00:00:00Z'')])])]"
      _ "[]" _ "''2024-01-01T00:00:00Z''"]
    score_recent_commits_cases [of demo
      "JObj [(''commit'', JObj [(''author'', JObj [(''date'', JStr ''yesterday'')])])]"
      _ "[]" _ "''yesterday''"]
    score_recent_commits_cases [of demo "JObj [(''commit'', JObj [])]" _ "[]" "JStr []"]
  by (simp add: latest_field_def eval_py replace_Z_def demo_def day_us_def)

text \<open>
  C8. When the reported remaining quota is an integer below five calls per candidate
  and no token is configured, \<^verbatim>\<open>analyze_repos\<close> scores the prefix of length
  \<open>max 1 (remaining div 5)\<close> only; with 12 remaining calls and five candidates that is
  two repositories.
\<close>

theorem analyze_repos_truncates:
  assumes "get_rate_limit g = Inr rate"
    and "dict_get rate ''remaining'' (JInt 0) = JInt remaining"
    and "remaining < 5 * int (length repos)"
    and "GITHUB_TOKEN g = []"
  shows "analyze_repos g repos =
           andthen (analyze_each g [] (take (nat (max 1 (remaining div 5))) repos))
             (\<lambda>results. Inr (sort_by_total results))
       \<and> (0 \<le> remaining \<longrightarrow>
            int (length (take (nat (max 1 (remaining div 5))) repos)) = max 1 (remaining div 5))"
proof
  have "quota_prefix g (JInt remaining) repos = Inr (take (nat (max 1 (remaining div 5))) repos)"
    using assms(3,4) by (simp add: quota_prefix_def py_num_def Let_def mult.commute)
  then show "analyze_repos g repos =
           andthen (analyze_each g [] (take (nat (max 1 (remaining div 5))) repos))
             (\<lambda>results. Inr (sort_by_total results))"
    using assms(1,2) by (simp add: analyze_repos_def Let_def)
  show "0 \<le> remaining \<longrightarrow>
            int (length (take (nat (max 1 (remaining div 5))) repos)) = max 1 (remaining div 5)"
    using assms(3) by auto
qed

lemma demo_rate:
  "get_rate_limit demo = Inr [(''remaining'', JInt 12), (''limit'', JInt 60), (''reset'', JInt 0)]"
  by (simp add: eval_analyzer eval_py)

theorem analyze_repos_truncates_witness:
  "get_rate_limit demo = Inr [(''remaining'', JInt 12), (''limit'', JInt 60), (''reset'', JInt 0)]
   \<and> (12 :: int) < 5 * int (length five) \<and> GITHUB_TOKEN demo = []
   \<and> analyze_repos demo five = Inr [demo_result, [(''error'', JStr ''not_found''), (''repo'', JStr ''c/d'')]]"
proof -
  have a: "dict_get [(''remaining'', JInt 12), (''limit'', JInt 60), (''reset'', JInt 0)]
      ''remaining'' (JInt 0) = JInt 12"
    by (simp add: dict_get_def)
  have b: "(12 :: int) < 5 * int (length five)" by (simp add: five_def)
  have c: "GITHUB_TOKEN demo = []" by (simp add: demo_def)
  have d: "analyze_repo demo ''c/d'' = Inr [(''error'', JStr ''not_found''), (''repo'', JStr ''c/d'')]"
    by (simp add: eval_analyzer eval_py)
  from analyze_repos_truncates [OF demo_rate a b c] demo_rate b c show ?thesis
    by (simp add: five_def demo_a_b d eval_py sort_by_total_def total_key_def demo_result_def)
qed

subsection \<open>Malformed identifiers in a batch\<close>

lemma str_contains_char: "str_contains [c] s \<longleftrightarrow> c \<in> set s"
  by (induction s) auto

lemma length_split_on: "length (split_on c s) = Suc (count_list s c)"
  by (induction s) (auto split: list.splits)

lemma analyze_repo_invalid:
  assumes "count_list t CHR ''/'' \<noteq> 1"
  shows "analyze_repo g t = Inr [(''error'', JStr (''Invalid repo format: '' @ t))]"
proof -
  have "length (split_on CHR ''/'' t) \<noteq> 2"
    using assms by (simp add: length_split_on)
  then show ?thesis
    by (auto simp: analyze_repo_def split: list.splits)
qed

lemma analyze_each_step:
  "analyze_each g acc (r # rs) = andthen (entry_result g r) (\<lambda>m. analyze_each g (acc @ m) rs)"
  by (simp add: entry_result_def Let_def andthen_def split: sum.splits json.splits)

lemma analyze_each_acc:
  "analyze_each g acc rs = andthen (analyze_each g [] rs) (\<lambda>out. Inr (acc @ out))"
proof (induction rs arbitrary: acc)
  case Nil
  show ?case by simp
next
  case (Cons r rs)
  show ?case
  proof (cases "entry_result g r")
    case (Inl e)
    then show ?thesis by (simp only: analyze_each_step andthen_simps)
  next
    case (Inr m)
    show ?thesis
      unfolding analyze_each_step Inr andthen_simps append_Nil
      by (subst Cons.IH [of "acc @ m"], subst Cons.IH [of m])
         (cases "analyze_each g [] rs"; simp)
  qed
qed

lemma analyze_each_append:
  "analyze_each g [] (pre @ post) =
     andthen (analyze_each g [] pre) (\<lambda>a.
     andthen (analyze_each g [] post) (\<lambda>b. Inr (a @ b)))"
proof (induction pre)
  case Nil
  show ?case by (cases "analyze_each g [] post") simp_all
next
  case (Cons r pre)
  show ?case
  proof (cases "entry_result g r")
    case (Inl e)
    then show ?thesis by (simp add: analyze_each_step del: analyze_each.simps)
  next
    case (Inr m)
    have "analyze_each g m (pre @ post) =
            andthen (analyze_each g [] (pre @ post)) (\<lambda>out. Inr (m @ out))"
      by (rule analyze_each_acc)
    moreover have "analyze_each g m pre = andthen (analyze_each g [] pre) (\<lambda>out. Inr (m @ out))"
      by (rule analyze_each_acc)
    ultimately show ?thesis
      using Inr Cons.IH
      by (cases "analyze_each g [] pre"; cases "analyze_each g [] post")
         (simp_all add: analyze_each_step del: analyze_each.simps)
  qed
qed

lemma entry_result_no_slash:
  assumes "dict_get e ''title'' (JStr []) = JStr t" and "CHR ''/'' \<notin> set t"
  shows "entry_result g e = Inr []"
  using assms by (simp add: entry_result_def py_in_def str_contains_char Let_def)

lemma entry_result_many_slashes:
  assumes "dict_get e ''title'' (JStr []) = JStr t" and "2 \<le> count_list t CHR ''/''"
  shows "entry_result g e = Inr [[(''error'', JStr (''Invalid repo format: '' @ t))]]"
proof -
  from assms(2) have "CHR ''/'' \<in> set t"
    by (metis count_notin not_numeral_le_zero)
  moreover from this have "t \<noteq> []" by auto
  moreover have "analyze_repo g t = Inr [(''error'', JStr (''Invalid repo format: '' @ t))]"
    using assms(2) by (intro analyze_repo_invalid) simp
  ultimately show ?thesis
    using assms(1) by (simp add: entry_result_def py_in_def str_contains_char Let_def)
qed

lemma analyze_each_around:
  "analyze_each g [] (pre @ e # post) =
     andthen (analyze_each g [] pre) (\<lambda>a.
     andthen (entry_result g e) (\<lambda>m.
     andthen (analyze_each g [] post) (\<lambda>b. Inr (a @ m @ b))))"
proof -
  have "analyze_each g [] (e # post) =
          andthen (entry_result g e) (\<lambda>m. andthen (analyze_each g [] post) (\<lambda>b. Inr (m @ b)))"
  proof (cases "entry_result g e")
    case (Inl x)
    then show ?thesis by (simp only: analyze_each_step andthen_simps)
  next
    case (Inr m)
    then show ?thesis
      using analyze_each_acc [of g m post] by (simp only: analyze_each_step andthen_simps append_Nil)
  qed
  then show ?thesis
    unfolding analyze_each_append [of g pre "e # post"]
    by (cases "analyze_each g [] pre"; cases "entry_result g e"; cases "analyze_each g [] post")
       simp_all
qed

text \<open>
  C3 (amended). Take an entry of the list that \<^verbatim>\<open>analyze_repos\<close> scores (the input
  after the quota check) whose title is a string. If the title contains no \<^verbatim>\<open>/\<close>
  (or is empty), the entry is skipped and leaves no result; if it contains two or more,
  the entry yields the error result \<^verbatim>\<open>Invalid repo format\<close>. In both cases the entries
  before and after it are analyzed as they would be on their own, and the returned list
  is the stable descending sort by total of all results.
\<close>

theorem analyze_repos_malformed_entry:
  assumes "get_rate_limit g = Inr rate"
    and "quota_prefix g (dict_get rate ''remaining'' (JInt 0)) repos = Inr (pre @ e # post)"
    and "dict_get e ''title'' (JStr []) = JStr t"
  shows "(CHR ''/'' \<notin> set t \<longrightarrow>
            analyze_repos g repos =
              andthen (analyze_each g [] pre) (\<lambda>a.
              andthen (analyze_each g [] post) (\<lambda>b. Inr (sort_by_total (a @ b)))))
       \<and> (2 \<le> count_list t CHR ''/'' \<longrightarrow>
            analyze_repos g repos =
              andthen (analyze_each g [] pre) (\<lambda>a.
              andthen (analyze_each g [] post) (\<lambda>b.
                Inr (sort_by_total
                  (a @ [(''error'', JStr (''Invalid repo format: '' @ t))] # b)))))"
proof -
  have top: "analyze_repos g repos =
      andthen (analyze_each g [] (pre @ e # post)) (\<lambda>results. Inr (sort_by_total results))"
    using assms(1,2) by (simp add: analyze_repos_def Let_def)
  show ?thesis
  proof (intro conjI impI)
    assume "CHR ''/'' \<notin> set t"
    then have "entry_result g e = Inr []"
      using assms(3) by (intro entry_result_no_slash)
    then show "analyze_repos g repos =
              andthen (analyze_each g [] pre) (\<lambda>a.
              andthen (analyze_each g [] post) (\<lambda>b. Inr (sort_by_total (a @ b))))"
      unfolding top analyze_each_around
      by (cases "analyze_each g [] pre"; cases "analyze_each g [] post") simp_all
  next
    assume "2 \<le> count_list t CHR ''/''"
    then have "entry_result g e = Inr [[(''error'', JStr (''Invalid repo format: '' @ t))]]"
      using assms(3) by (intro entry_result_many_slashes)
    then show "analyze_repos g repos =
              andthen (analyze_each g [] pre) (\<lambda>a.
              andthen (analyze_each g [] post) (\<lambda>b.
                Inr (sort_by_total
                  (a @ [(''error'', JStr (''Invalid repo format: '' @ t))] # b))))"
      unfolding top analyze_each_around
      by (cases "analyze_each g [] pre"; cases "analyze_each g [] post") simp_all
  qed
qed

lemma demo_loop_a_b: "analyze_each demo [] [[(''title'', JStr ''a/b'')]] = Inr [demo_result]"
  by (simp add: demo_a_b eval_py)

lemma demo_sorted:
  "sort_by_total ([(''error'', JStr ''Invalid repo format: a/b/c'')] # [demo_result]) =
     [demo_result, [(''error'', JStr ''Invalid repo format: a/b/c'')]]"
  by (simp add: sort_by_total_def total_key_def dict_get_def demo_result_def)

lemma demo_quota_two:
  "quota_prefix demo
     (dict_get [(''remaining'', JInt 12), (''limit'', JInt 60), (''reset'', JInt 0)] ''remaining'' (JInt 0))
     [x, y] = Inr ([] @ x # [y])"
  by (simp add: quota_prefix_def eval_py)

theorem analyze_repos_malformed_entry_witness:
  "analyze_repos demo [[(''title'', JStr ''a/b/c'')], [(''title'', JStr ''a/b'')]]
     = Inr [demo_result, [(''error'', JStr ''Invalid repo format: a/b/c'')]]
   \<and> analyze_repos demo [[(''title'', JStr ''plain'')], [(''title'', JStr ''a/b'')]]
     = Inr [demo_result]"
proof -
  have b: "dict_get [(''title'', JStr ''a/b/c'')] ''title'' (JStr []) = JStr ''a/b/c''"
    and c: "dict_get [(''title'', JStr ''plain'')] ''title'' (JStr []) = JStr ''plain''"
    by (simp_all add: dict_get_def)
  have d: "(2::nat) \<le> count_list ''a/b/c'' CHR ''/''" and e: "CHR ''/'' \<notin> set ''plain''"
    by simp_all
  have s1: "sort_by_total [demo_result] = [demo_result]"
    by (simp add: sort_by_total_def)
  from analyze_repos_malformed_entry [OF demo_rate demo_quota_two b] d
    analyze_repos_malformed_entry [OF demo_rate demo_quota_two c] e
  show ?thesis
    by (simp add: demo_loop_a_b demo_sorted s1 del: count_list.simps analyze_each.simps(2))
qed

theorem analyze_repos_skips_counterexample:
  "analyze_repos demo [[(''title'', JStr ''a/b'')], [(''title'', JStr ''plain'')]] = Inr [demo_result]"
  by (simp add: analyze_repos_def demo_rate quota_prefix_def eval_py demo_a_b sort_by_total_def)

end
